theory Spec2Isabelle
  imports Complex_Main "HOL-Library.Sublist"
begin

chapter \<open>The Sehwag multi-leg breakout strategy: model\<close>

text \<open>
  A shallow embedding of the parts of \<^verbatim>\<open>src/core\<close> that the specification's testable
  properties are about: \<^verbatim>\<open>strategy.py\<close> (the leg state, entry, the price handler, the
  risk manager, exit, the wait-and-trade loop, the entry-time gate), \<^verbatim>\<open>models.py\<close> and
  \<^verbatim>\<open>position_manager.py\<close> (the second exit path), \<^verbatim>\<open>order_manager.py\<close> (the position
  guard, modify and cancel of the stop order) and \<^verbatim>\<open>market_data.py\<close> (the quote fetch).

  Conventions of the embedding.
  \<^item> Python floats are modelled as the real numbers: rounding, infinities and NaN are not
    modelled, so every statement below is about the exact arithmetic the code denotes.
  \<^item> Every raise of the source is a value: a function that can raise returns
    \<open>exn + 'a\<close>, or a pair whose first component is \<open>exn option\<close> when the state at the raise
    matters, and a \<^verbatim>\<open>try\<close>/\<^verbatim>\<open>except\<close> of the source is a case split on it.
  \<^item> Calls to the broker, the quote API and the persistence sink are recorded in a list of
    events, returned next to the new state; what the collaborator answers is an argument.
  \<^item> Log lines are not modelled, except where formatting one can raise or where the level of
    the line is the outcome a property is about.
\<close>

section \<open>Python values\<close>

datatype exn =
  TypeError | ValueError | ZeroDivisionError | AttributeError | KeyError | NameError | ApiError

text \<open>
  A dynamically typed value as the code can meet it in a config entry, a quote or a price
  argument: \<open>PyNum\<close> is an int, float or bool; \<open>PyNumStr r\<close> is a string that
  \<^verbatim>\<open>float()\<close> parses to \<open>r\<close>; \<open>PyStr s\<close> is any other string, given by its text;
  \<open>PyObj\<close> is any other (non-empty) object, such as a list.
\<close>

datatype pyval = PyNone | PyNum real | PyNumStr real | PyStr string | PyObj

fun py_float :: "pyval \<Rightarrow> exn + real" where
  "py_float PyNone = Inl TypeError"
| "py_float (PyNum r) = Inr r"
| "py_float (PyNumStr r) = Inr r"
| "py_float (PyStr s) = Inl ValueError"
| "py_float PyObj = Inl TypeError"

fun truthy :: "pyval \<Rightarrow> bool" where
  "truthy PyNone = False"
| "truthy (PyNum r) = (r \<noteq> 0)"
| "truthy (PyNumStr r) = True"
| "truthy (PyStr s) = (s \<noteq> [])"
| "truthy PyObj = True"

text \<open>Float division raises on a zero divisor.\<close>

definition py_div :: "real \<Rightarrow> real \<Rightarrow> exn + real" where
  "py_div a b = (if b = 0 then Inl ZeroDivisionError else Inr (a / b))"

text \<open>\<^verbatim>\<open>int(x)\<close> on a float truncates towards zero.\<close>

definition py_int :: "real \<Rightarrow> int" where
  "py_int x = (if 0 \<le> x then \<lfloor>x\<rfloor> else \<lceil>x\<rceil>)"

text \<open>\<^verbatim>\<open>round(x)\<close> on a float rounds to the nearest integer, a tie to the even one.\<close>

definition py_round :: "real \<Rightarrow> int" where
  "py_round x = (let f = \<lfloor>x\<rfloor>; d = x - of_int f in
     if d < 1 / 2 then f else if 1 / 2 < d then f + 1 else if even f then f else f + 1)"

text \<open>
  \<^verbatim>\<open>str.lower()\<close> on ASCII text (a letter \<^verbatim>\<open>A\<close>..\<^verbatim>\<open>Z\<close> gets bit 5 set), and the substring
  test \<^verbatim>\<open>needle in text\<close>.
\<close>

definition lower_char :: "char \<Rightarrow> char" where
  "lower_char c = (if 65 \<le> (of_char c :: nat) \<and> (of_char c :: nat) \<le> 90
     then (case c of Char b0 b1 b2 b3 b4 b5 b6 b7 \<Rightarrow> Char b0 b1 b2 b3 b4 True b6 b7) else c)"

definition lower :: "string \<Rightarrow> string" where
  "lower s = map lower_char s"

fun contains :: "string \<Rightarrow> string \<Rightarrow> bool" where
  "contains needle [] = (needle = [])"
| "contains needle (c # cs) = (prefix needle (c # cs) \<or> contains needle cs)"

section \<open>Clock times\<close>

text \<open>
  A \<^verbatim>\<open>datetime\<close> in the strategy's time zone: the date as its proleptic Gregorian ordinal
  (\<^verbatim>\<open>date.toordinal()\<close>, day 1 is a Monday) and the time of day.
\<close>

record datetime =
  ordinal :: nat
  hour :: nat
  minute :: nat
  second :: nat
  microsecond :: nat

definition dt_key :: "datetime \<Rightarrow> nat \<times> nat \<times> nat \<times> nat \<times> nat" where
  "dt_key d = (ordinal d, hour d, minute d, second d, microsecond d)"

fun key_le :: "nat \<times> nat \<times> nat \<times> nat \<times> nat \<Rightarrow> nat \<times> nat \<times> nat \<times> nat \<times> nat \<Rightarrow> bool" where
  "key_le (a1, a2, a3, a4, a5) (b1, b2, b3, b4, b5) =
     (a1 < b1 \<or> (a1 = b1 \<and> (a2 < b2 \<or> (a2 = b2 \<and> (a3 < b3 \<or> (a3 = b3 \<and>
       (a4 < b4 \<or> (a4 = b4 \<and> a5 \<le> b5))))))))"

definition dt_le :: "datetime \<Rightarrow> datetime \<Rightarrow> bool" where
  "dt_le a b = key_le (dt_key a) (dt_key b)"

text \<open>\<^verbatim>\<open>now.replace(hour=h, minute=m, second=s, microsecond=0)\<close> and \<^verbatim>\<open>now.weekday()\<close>.\<close>

definition replace_time :: "datetime \<Rightarrow> nat \<Rightarrow> nat \<Rightarrow> nat \<Rightarrow> datetime" where
  "replace_time now h m s = now\<lparr>hour := h, minute := m, second := s, microsecond := 0\<rparr>"

definition weekday :: "datetime \<Rightarrow> nat" where
  "weekday d = (ordinal d + 6) mod 7"

section \<open>The leg state (\<^verbatim>\<open>strategy.py\<close>, class \<^verbatim>\<open>LegState\<close>)\<close>

text \<open>
  The exit reason is a string in the source; two of them carry a formatted number
  (\<^verbatim>\<open>AUTO_CLOSE_{pct}PCT\<close>, \<^verbatim>\<open>TRAIL_EXIT_{target:.1f}PCT\<close>).
\<close>

datatype exit_reason =
  SL_BREACH | SL_EXECUTED_ON_BROKER | TIME_EXIT | PROFIT_LOCK | AUTO_CLOSE real | TRAIL_EXIT real

text \<open>
  The attributes of \<^verbatim>\<open>LegState\<close>. \<open>exiting\<close> is the attribute \<^verbatim>\<open>_exiting\<close>, which the
  code adds at the first exit and reads with \<^verbatim>\<open>getattr(leg_state, '_exiting', False)\<close>;
  \<open>profit_level_for_lock_increase\<close> is added by the escalating-lock mode and tested with
  \<^verbatim>\<open>hasattr\<close> (\<open>None\<close>: not yet added). \<open>entry_price\<close> and \<open>exit_price\<close> are kept as
  Python values because \<^verbatim>\<open>calculate_pnl\<close> converts them itself.
\<close>

record leg_state =
  leg_num :: nat
  config :: "string \<rightharpoonup> pyval"
  strategy_defaults :: "string \<rightharpoonup> pyval"
  exit_time :: "datetime option"
  symbol :: "string option"
  entry_price :: pyval
  quantity :: int
  entry_order_id :: "string option"
  sl_order_id :: "string option"
  profit_target_order_id :: "string option"
  initial_sl_pct :: real
  current_sl :: "real option"
  highest_price :: "real option"
  last_sl_trail_level :: real
  first_lock_achieved :: bool
  profit_exit_target :: "real option"
  last_trail_level :: real
  is_active :: bool
  exit_reason :: "exit_reason option"
  exit_price :: pyval
  exiting :: bool
  profit_level_for_lock_increase :: "real option"

text \<open>
  The state \<^verbatim>\<open>LegState(1, {}, 75, {})\<close> is left in by \<^verbatim>\<open>__init__\<close>: an empty leg config, lot
  size 75, no strategy defaults, so quantity \<open>75 * 1 * 1\<close> and the last-resort stop of 7 percent.
\<close>

definition new_leg :: leg_state where
  "new_leg = \<lparr> leg_num = 1, config = Map.empty, strategy_defaults = Map.empty,
     exit_time = None, symbol = None, entry_price = PyNone, quantity = 75,
     entry_order_id = None, sl_order_id = None, profit_target_order_id = None,
     initial_sl_pct = 7, current_sl = None, highest_price = None,
     last_sl_trail_level = 0, first_lock_achieved = False, profit_exit_target = None,
     last_trail_level = 0, is_active = False, exit_reason = None, exit_price = PyNone,
     exiting = False, profit_level_for_lock_increase = None \<rparr>"

text \<open>
  The same leg once \<^verbatim>\<open>_enter_leg_position\<close> has run with a fill at 100 and a stop order
  accepted by the broker (see \<open>enter_live\<close> below).
\<close>

definition entered_leg :: leg_state where
  "entered_leg = new_leg\<lparr> symbol := Some ''NIFTY02DEC2524500CE'', entry_price := PyNum 100,
     entry_order_id := Some ''ORD1'', sl_order_id := Some ''SL1'', current_sl := Some 93,
     highest_price := Some 100, is_active := True \<rparr>"

text \<open>
  \<^verbatim>\<open>LegState.calculate_pnl\<close>. The conversions sit in a \<^verbatim>\<open>try\<close> whose handler returns
  \<^verbatim>\<open>(0.0, 0.0)\<close>; the division is guarded by \<^verbatim>\<open>entry != 0\<close>. \<open>quantity\<close> is an int, so
  \<^verbatim>\<open>int(self.quantity)\<close> is the quantity.
\<close>

definition calculate_pnl :: "leg_state \<Rightarrow> pyval \<Rightarrow> exn + (real \<times> real)" where
  "calculate_pnl s current_price =
     (if entry_price s = PyNone then Inr (0, 0)
      else case py_float (entry_price s) of
        Inl e \<Rightarrow> Inr (0, 0)
      | Inr entry \<Rightarrow>
          (case py_float current_price of
             Inl e \<Rightarrow> Inr (0, 0)
           | Inr exitp \<Rightarrow>
               (let qty = quantity s;
                    price_change = exitp - entry;
                    pnl = price_change * of_int qty
                in if entry \<noteq> 0
                   then (case py_div price_change entry of
                           Inl e \<Rightarrow> Inl e
                         | Inr q \<Rightarrow> Inr (pnl, q * 100))
                   else Inr (pnl, 0))))"

section \<open>Configuration lookup (\<^verbatim>\<open>_manage_position_unified\<close>, the nested helpers)\<close>

text \<open>
  A value that disables a parameter: \<^verbatim>\<open>None\<close>, or one of the strings \<^verbatim>\<open>null\<close>,
  \<^verbatim>\<open>none\<close> and the empty string, in any case.
\<close>

definition null_text :: "string \<Rightarrow> bool" where
  "null_text s = (lower s = ''null'' \<or> lower s = ''none'' \<or> lower s = [])"

fun is_null :: "pyval \<Rightarrow> bool" where
  "is_null PyNone = True"
| "is_null (PyStr s) = null_text s"
| "is_null v = False"

text \<open>
  \<^verbatim>\<open>safe_float\<close>: numbers convert, a disabling string gives \<^verbatim>\<open>None\<close>, any other string goes
  through \<^verbatim>\<open>float()\<close> (which raises on a \<open>PyStr\<close>, caught: \<^verbatim>\<open>None\<close>), anything else is
  \<^verbatim>\<open>None\<close>.
\<close>

fun safe_float :: "pyval \<Rightarrow> real option" where
  "safe_float PyNone = None"
| "safe_float (PyNum r) = Some r"
| "safe_float (PyNumStr r) = Some r"
| "safe_float (PyStr s) =
     (if null_text s then None
      else case py_float (PyStr s) of Inl e \<Rightarrow> None | Inr r \<Rightarrow> Some r)"
| "safe_float PyObj = None"

text \<open>
  \<^verbatim>\<open>get_param(key, default, allow_strategy_fallback)\<close>: a key present in the leg config
  never falls back, even when its value disables the parameter.
\<close>

definition get_param :: "leg_state \<Rightarrow> string \<Rightarrow> pyval \<Rightarrow> bool \<Rightarrow> pyval" where
  "get_param s key dflt allow_strategy_fallback =
     (case config s key of
        Some v \<Rightarrow> (if is_null v then PyNone else v)
      | None \<Rightarrow>
          (if allow_strategy_fallback
           then (case strategy_defaults s key of
                   Some v \<Rightarrow> (if is_null v then PyNone else v)
                 | None \<Rightarrow> dflt)
           else dflt))"

section \<open>Collaborators and events\<close>

datatype action = EntryAction | ExitAction

text \<open>
  The calls a leg makes to the order manager and to the persistence sink, in the order made.
  \<open>RecordLegExit\<close> is \<^verbatim>\<open>persistence.record_leg_exit(leg_num, exit_price, reason,
  realized_pnl, pnl_percentage)\<close>, the final P\&L record of a leg.
\<close>

datatype event =
    PlaceOrder "string option" int action
  | PlaceSL "string option" int real
  | ModifySL string real
  | CancelSL string
  | CheckOrderStatus string
  | RecordLegExit nat pyval exit_reason real real
  | LogSLUpdate nat real real
  | LogEvent string

text \<open>
  What the collaborators answer while one of the functions below runs.
  \<open>persistence\<close>: whether \<^verbatim>\<open>self.persistence\<close> is set.
  \<open>quote_ltp\<close>: \<^verbatim>\<open>market_data.get_quote\<close>, \<open>None\<close> for no quote or one without \<^verbatim>\<open>ltp\<close>.
  The order manager's methods catch their own exceptions, so they answer with a value;
  \<^verbatim>\<open>check_order_status\<close> can raise.
\<close>

record broker =
  persistence :: bool
  quote_ltp :: "pyval option"
  place_order_id :: "action \<Rightarrow> string option"
  get_fill_price :: "real option"
  place_sl_order_id :: "string option"
  modify_sl_order_ok :: "real \<Rightarrow> bool"
  cancel_sl_order_ok :: bool
  check_order_status :: "exn + string option"

text \<open>A simulated run: no persistence, orders simulated, no stop order on the broker.\<close>

definition sim_broker :: broker where
  "sim_broker = \<lparr> persistence = False, quote_ltp = Some (PyNum 100),
     place_order_id = (\<lambda>a. Some ''SIM_ORDER''), get_fill_price = None,
     place_sl_order_id = None, modify_sl_order_ok = (\<lambda>p. False),
     cancel_sl_order_ok = False, check_order_status = Inr None \<rparr>"

text \<open>A live run: persistence on, orders filled at 100, the stop order accepted.\<close>

definition live_broker :: broker where
  "live_broker = \<lparr> persistence = True, quote_ltp = Some (PyNum 100),
     place_order_id = (\<lambda>a. Some ''ORD1''), get_fill_price = Some 100,
     place_sl_order_id = Some ''SL1'', modify_sl_order_ok = (\<lambda>p. True),
     cancel_sl_order_ok = True, check_order_status = Inr (Some ''open'') \<rparr>"

text \<open>An order id as a condition: \<^verbatim>\<open>None\<close> and the empty string are false.\<close>

fun some_id :: "string option \<Rightarrow> bool" where
  "some_id None = False"
| "some_id (Some i) = (i \<noteq> [])"

fun is_num :: "pyval \<Rightarrow> bool" where
  "is_num (PyNum r) = True"
| "is_num v = False"

section \<open>Exit (\<^verbatim>\<open>SehwagStrategy._exit_leg_position\<close>)\<close>

text \<open>
  The exit summary formats the entry price, the exit price, the current stop and the highest
  price with \<^verbatim>\<open>:.2f\<close>, which raises on \<^verbatim>\<open>None\<close> and on a string. A raise there is caught by
  the function's own handler, after the exit fields are written and before the persistence
  calls.
\<close>

definition summary_formats :: "leg_state \<Rightarrow> pyval \<Rightarrow> bool" where
  "summary_formats s exit_px =
     (is_num (entry_price s) \<and> is_num exit_px \<and> current_sl s \<noteq> None \<and> highest_price s \<noteq> None)"

text \<open>
  The guard and the two flag writes happen under \<^verbatim>\<open>self.state_lock\<close>; the model is
  sequential, so the locked block is one step. What \<^verbatim>\<open>cancel_sl_order\<close> and
  \<^verbatim>\<open>place_order\<close> answer only selects a log line.
\<close>

definition exit_leg_position ::
    "broker \<Rightarrow> leg_state \<Rightarrow> pyval \<Rightarrow> exit_reason \<Rightarrow> leg_state \<times> event list" where
  "exit_leg_position b s exit_px reason =
     (if exiting s \<or> \<not> is_active s then (s, [])
      else
        let s1 = s\<lparr>exiting := True, is_active := False\<rparr> in
        case calculate_pnl s1 exit_px of
          Inl e \<Rightarrow> (s1, [])
        | Inr (pnl, pnl_pct) \<Rightarrow>
            let cancel = (case sl_order_id s1 of
                            Some i \<Rightarrow> (if i \<noteq> [] then [CancelSL i] else [])
                          | None \<Rightarrow> []);
                s2 = (if some_id (sl_order_id s1) then s1\<lparr>sl_order_id := None\<rparr> else s1);
                s3 = (if some_id (profit_target_order_id s2)
                      then s2\<lparr>profit_target_order_id := None\<rparr> else s2);
                place = [PlaceOrder (symbol s3) (quantity s3) ExitAction];
                s4 = s3\<lparr>exit_price := exit_px, exit_reason := Some reason\<rparr>
            in if summary_formats s4 exit_px \<and> persistence b
               then (s4, cancel @ place @
                      [RecordLegExit (leg_num s4) exit_px reason pnl pnl_pct,
                       LogEvent ''POSITION_CLOSED''])
               else (s4, cancel @ place))"

text \<open>A leg receiving a sequence of exit attempts, each with its own price and reason.\<close>

fun exit_attempts ::
    "broker \<Rightarrow> leg_state \<Rightarrow> (pyval \<times> exit_reason) list \<Rightarrow> leg_state \<times> event list" where
  "exit_attempts b s [] = (s, [])"
| "exit_attempts b s ((px, reason) # rest) =
     (case exit_leg_position b s px reason of
        (s1, ev1) \<Rightarrow> (case exit_attempts b s1 rest of (s2, ev2) \<Rightarrow> (s2, ev1 @ ev2)))"

text \<open>The states a leg goes through, and how often \<open>is_active\<close> goes from true to false.\<close>

fun exit_states :: "broker \<Rightarrow> leg_state \<Rightarrow> (pyval \<times> exit_reason) list \<Rightarrow> leg_state list" where
  "exit_states b s [] = [s]"
| "exit_states b s ((px, reason) # rest) =
     s # exit_states b (fst (exit_leg_position b s px reason)) rest"

fun deactivations :: "leg_state list \<Rightarrow> nat" where
  "deactivations (s # t # rest) =
     (if is_active s \<and> \<not> is_active t then 1 else 0) + deactivations (t # rest)"
| "deactivations [s] = 0"
| "deactivations [] = 0"

section \<open>The second exit path (\<^verbatim>\<open>models.py\<close>, \<^verbatim>\<open>position_manager.py\<close>)\<close>

text \<open>
  The dataclass \<^verbatim>\<open>LegPosition\<close>, its fields prefixed with \<open>lp_\<close>; \<^verbatim>\<open>option_type\<close>,
  \<^verbatim>\<open>itm_level\<close> and \<^verbatim>\<open>current_ltp\<close>, which no function below reads, are left out.
\<close>

record leg_position =
  lp_leg_id :: nat
  lp_symbol :: string
  lp_entry_price :: real
  lp_entry_time :: string
  lp_quantity :: int
  lp_current_sl :: real
  lp_lock_profit_pct :: real
  lp_profit_level_for_lock_increase :: real
  lp_is_active :: bool
  lp_exit_price :: "real option"
  lp_exit_time :: "string option"
  lp_pnl :: real
  lp_pnl_pct :: real

text \<open>
  \<^verbatim>\<open>LegPosition.calculate_pnl(current_price, entry_action)\<close>; \<open>buy\<close> is
  \<^verbatim>\<open>entry_action == "BUY"\<close>. The division is not guarded.
\<close>

definition lp_calculate_pnl :: "leg_position \<Rightarrow> real \<Rightarrow> bool \<Rightarrow> exn + (real \<times> real)" where
  "lp_calculate_pnl lp current_price buy =
     (let diff = (if buy then current_price - lp_entry_price lp
                  else lp_entry_price lp - current_price)
      in case py_div diff (lp_entry_price lp) of
           Inl e \<Rightarrow> Inl e
         | Inr q \<Rightarrow> Inr (diff * of_int (lp_quantity lp), q * 100))"

text \<open>
  \<^verbatim>\<open>PositionManager.exit_position\<close>. \<open>order_id\<close> is what \<^verbatim>\<open>place_order\<close> answers and
  \<open>now\<close> the formatted clock; both branches on the order id write the same fields. A raise
  of \<^verbatim>\<open>calculate_pnl\<close> leaves the function after the first three writes.
\<close>

definition exit_position ::
    "bool \<Rightarrow> string option \<Rightarrow> string \<Rightarrow> leg_position \<Rightarrow> real \<Rightarrow>
     exn option \<times> leg_position \<times> event list" where
  "exit_position buy order_id now lp exit_px =
     (if \<not> lp_is_active lp then (None, lp, [])
      else
        let place = [PlaceOrder (Some (lp_symbol lp)) (lp_quantity lp) ExitAction];
            lp1 = lp\<lparr>lp_is_active := False, lp_exit_price := Some exit_px,
                     lp_exit_time := Some now\<rparr>
        in case lp_calculate_pnl lp1 exit_px buy of
             Inl e \<Rightarrow> (Some e, lp1, place)
           | Inr (pnl, pnl_pct) \<Rightarrow> (None, lp1\<lparr>lp_pnl := pnl, lp_pnl_pct := pnl_pct\<rparr>, place))"

text \<open>
  \<^verbatim>\<open>PositionManager.manage_position\<close>, block 1: the trailing stop is kept
  \<^verbatim>\<open>sl_trail_pct\<close> percent below the current price. A config value that is true but not a
  number makes the arithmetic raise.
\<close>

definition pm_trail_stop ::
    "(string \<rightharpoonup> pyval) \<Rightarrow> leg_position \<Rightarrow> real \<Rightarrow> real \<Rightarrow> exn + leg_position" where
  "pm_trail_stop leg_config lp current_price pnl_pct =
     (case leg_config ''sl_trail_pct'' of
        None \<Rightarrow> Inr lp
      | Some v \<Rightarrow>
          if truthy v \<and> 0 < pnl_pct
          then (case v of
                  PyNum sl_trail_pct \<Rightarrow>
                    let new_sl = current_price * (1 - sl_trail_pct / 100) in
                    if lp_current_sl lp < new_sl then Inr (lp\<lparr>lp_current_sl := new_sl\<rparr>)
                    else Inr lp
                | _ \<Rightarrow> Inl TypeError)
          else Inr lp)"

text \<open>Block 3: the escalating profit lock.\<close>

definition pm_escalate ::
    "(string \<rightharpoonup> pyval) \<Rightarrow> leg_position \<Rightarrow> real \<Rightarrow> exn option \<times> leg_position" where
  "pm_escalate leg_config lp pnl_pct =
     (case (leg_config ''profit_lock_step'', leg_config ''profit_step_threshold'') of
        (Some step, Some threshold) \<Rightarrow>
          if truthy step \<and> truthy threshold \<and> lp_lock_profit_pct lp \<le> pnl_pct
             \<and> lp_profit_level_for_lock_increase lp \<le> pnl_pct
          then (case step of
                  PyNum st \<Rightarrow>
                    let lp1 = lp\<lparr>lp_lock_profit_pct := lp_lock_profit_pct lp + st\<rparr> in
                    (case threshold of
                       PyNum th \<Rightarrow>
                         (None, lp1\<lparr>lp_profit_level_for_lock_increase :=
                                      lp_profit_level_for_lock_increase lp1 + th\<rparr>)
                     | _ \<Rightarrow> (Some TypeError, lp1))
                | _ \<Rightarrow> (Some TypeError, lp))
          else (None, lp)
      | _ \<Rightarrow> (None, lp))"

text \<open>
  The whole of \<^verbatim>\<open>manage_position\<close>: \<open>position\<close> is \<^verbatim>\<open>state.get_position(leg_num)\<close>, and
  the state returned is the position as the call leaves it.
\<close>

definition pm_manage_position ::
    "bool \<Rightarrow> string option \<Rightarrow> string \<Rightarrow> (string \<rightharpoonup> pyval) \<Rightarrow> leg_position option \<Rightarrow> real \<Rightarrow>
     exn option \<times> leg_position option \<times> event list" where
  "pm_manage_position buy order_id now leg_config position current_price =
     (case position of
        None \<Rightarrow> (None, None, [])
      | Some lp \<Rightarrow>
          if \<not> lp_is_active lp then (None, Some lp, [])
          else case lp_calculate_pnl lp current_price buy of
            Inl e \<Rightarrow> (Some e, Some lp, [])
          | Inr (pnl, pnl_pct) \<Rightarrow>
              (case pm_trail_stop leg_config lp current_price pnl_pct of
                 Inl e \<Rightarrow> (Some e, Some lp, [])
               | Inr lp1 \<Rightarrow>
                   if current_price \<le> lp_current_sl lp1
                   then (case exit_position buy order_id now lp1 current_price of
                           (e, lp2, ev) \<Rightarrow> (e, Some lp2, ev))
                   else (case pm_escalate leg_config lp1 pnl_pct of
                           (Some e, lp2) \<Rightarrow> (Some e, Some lp2, [])
                         | (None, lp2) \<Rightarrow>
                             (case (case leg_config ''auto_close_profit_pct'' of
                                      None \<Rightarrow> Inr False
                                    | Some v \<Rightarrow>
                                        if truthy v
                                        then (case v of
                                                PyNum auto_close_pct \<Rightarrow> Inr (auto_close_pct \<le> pnl_pct)
                                              | _ \<Rightarrow> Inl TypeError)
                                        else Inr False) of
                                Inl e \<Rightarrow> (Some e, Some lp2, [])
                              | Inr auto_close \<Rightarrow>
                                  if auto_close \<or> lp_lock_profit_pct lp2 \<le> pnl_pct
                                  then (case exit_position buy order_id now lp2 current_price of
                                          (e, lp3, ev) \<Rightarrow> (e, Some lp3, ev))
                                  else (None, Some lp2, [])))))"

text \<open>Exit attempts on a position: each with its price, the broker's answer and the clock.\<close>

fun exit_position_attempts ::
    "bool \<Rightarrow> leg_position \<Rightarrow> (real \<times> string option \<times> string) list \<Rightarrow> leg_position \<times> event list" where
  "exit_position_attempts buy lp [] = (lp, [])"
| "exit_position_attempts buy lp ((px, order_id, now) # rest) =
     (case exit_position buy order_id now lp px of
        (e, lp1, ev1) \<Rightarrow>
          (case exit_position_attempts buy lp1 rest of (lp2, ev2) \<Rightarrow> (lp2, ev1 @ ev2)))"

text \<open>A position bought at 100 with a stop at 93.\<close>

definition new_position :: leg_position where
  "new_position = \<lparr> lp_leg_id = 1, lp_symbol = ''NIFTY02DEC2524500CE'', lp_entry_price = 100,
     lp_entry_time = ''09:20:00'', lp_quantity = 75, lp_current_sl = 93,
     lp_lock_profit_pct = 2, lp_profit_level_for_lock_increase = 2, lp_is_active = True,
     lp_exit_price = None, lp_exit_time = None, lp_pnl = 0, lp_pnl_pct = 0 \<rparr>"

fun is_exit_order :: "event \<Rightarrow> bool" where
  "is_exit_order (PlaceOrder sy q a) = (a = ExitAction)"
| "is_exit_order e = False"

fun is_pnl_record :: "event \<Rightarrow> bool" where
  "is_pnl_record (RecordLegExit n px r pnl pct) = True"
| "is_pnl_record e = False"

section \<open>Entry (\<^verbatim>\<open>SehwagStrategy._enter_leg_position\<close>)\<close>

text \<open>
  The entry price is the broker's fill price when one is reported and positive, else the
  quoted price; the slippage percentage is computed (for a log line) before the fill price
  is stored, and its division by the quoted price can raise, which the function's handler
  turns into \<^verbatim>\<open>False\<close>. The initial stop is computed from the entry price so chosen.
\<close>

definition enter_leg_position :: "broker \<Rightarrow> leg_state \<Rightarrow> bool \<times> leg_state \<times> event list" where
  "enter_leg_position b s =
     (if \<not> some_id (symbol s) then (False, s, [])
      else case quote_ltp b of
        None \<Rightarrow> (False, s, [])
      | Some q \<Rightarrow>
          (case py_float q of
             Inl e \<Rightarrow> (False, s, [])
           | Inr ltp_price \<Rightarrow>
               let s1 = s\<lparr>entry_price := PyNum ltp_price\<rparr>;
                   order = PlaceOrder (symbol s1) (quantity s1) EntryAction;
                   order_id = place_order_id b EntryAction
               in if \<not> some_id order_id then (False, s1, [order])
                  else
                    let s2 = s1\<lparr>entry_order_id := order_id\<rparr> in
                    case (case get_fill_price b of
                            Some fill \<Rightarrow>
                              (if fill \<noteq> 0 \<and> 0 < fill
                               then (case py_div (fill - ltp_price) ltp_price of
                                       Inl e \<Rightarrow> Inl e
                                     | Inr d \<Rightarrow> Inr fill)
                               else Inr ltp_price)
                          | None \<Rightarrow> Inr ltp_price) of
                      Inl e \<Rightarrow> (False, s2, [order])
                    | Inr entry \<Rightarrow>
                        let sl = entry * (1 - initial_sl_pct s2 / 100);
                            s3 = s2\<lparr>entry_price := PyNum entry, current_sl := Some sl,
                                    is_active := True, highest_price := Some entry\<rparr>;
                            place_sl = PlaceSL (symbol s3) (quantity s3) sl;
                            sl_id = place_sl_order_id b
                        in if some_id sl_id
                           then (True, s3\<lparr>sl_order_id := sl_id\<rparr>,
                                 [order, place_sl] @
                                 (if persistence b then [LogEvent ''SL_ORDER_PLACED''] else []))
                           else (True, s3, [order, place_sl])))"

section \<open>The risk manager (\<^verbatim>\<open>SehwagStrategy._manage_position_unified\<close>)\<close>

text \<open>
  The function is a sequence of blocks, some of which return early or raise. A block gives
  how control leaves it, the state and the calls made.
\<close>

datatype flow = Continue | Return | Raised exn

definition and_then ::
    "flow \<times> leg_state \<times> event list \<Rightarrow> (leg_state \<Rightarrow> flow \<times> leg_state \<times> event list) \<Rightarrow>
     flow \<times> leg_state \<times> event list" where
  "and_then r f =
     (case r of (fl, s, ev) \<Rightarrow>
        (case fl of
           Continue \<Rightarrow> (case f s of (fl', s', ev') \<Rightarrow> (fl', s', ev @ ev'))
         | Return \<Rightarrow> (fl, s, ev)
         | Raised e \<Rightarrow> (fl, s, ev)))"

definition exit_and_return ::
    "broker \<Rightarrow> leg_state \<Rightarrow> real \<Rightarrow> exit_reason \<Rightarrow> flow \<times> leg_state \<times> event list" where
  "exit_and_return b s current_price reason =
     (case exit_leg_position b s (PyNum current_price) reason of (s', ev) \<Rightarrow> (Return, s', ev))"

text \<open>
  Block 1, the trailing stop. The new stop is the current stop raised by
  \<^verbatim>\<open>sl_trail_move * intervals_crossed\<close> percent. After a successful modification of the
  broker's order the log line names \<^verbatim>\<open>sl_order_id\<close>, which is not a variable of the
  function: the line raises \<^verbatim>\<open>NameError\<close>, and the rest of the function is skipped.
\<close>

definition trail_stop_loss :: "broker \<Rightarrow> leg_state \<Rightarrow> real \<Rightarrow> flow \<times> leg_state \<times> event list" where
  "trail_stop_loss b s pnl_pct =
     (case (safe_float (get_param s ''sl_trail_trigger_pct'' PyNone True),
            safe_float (get_param s ''sl_trail_move_pct'' PyNone True)) of
        (Some sl_trail_trigger, Some sl_trail_move) \<Rightarrow>
          if sl_trail_trigger \<noteq> 0 \<and> sl_trail_move \<noteq> 0 \<and> 0 < pnl_pct
          then
            let profit_increase = pnl_pct - last_sl_trail_level s in
            if sl_trail_trigger \<le> profit_increase
            then
              let intervals_crossed = py_int (profit_increase / sl_trail_trigger);
                  sl_increase_pct = sl_trail_move * of_int intervals_crossed
              in case current_sl s of
                   None \<Rightarrow> (Raised TypeError, s, [])
                 | Some old_sl \<Rightarrow>
                     let new_sl_price = old_sl * (1 + sl_increase_pct / 100) in
                     if old_sl < new_sl_price
                     then
                       let s1 = s\<lparr>current_sl := Some new_sl_price, last_sl_trail_level := pnl_pct\<rparr>;
                           logged = (if persistence b
                                     then [LogSLUpdate (leg_num s1) old_sl new_sl_price] else [])
                       in case sl_order_id s1 of
                            None \<Rightarrow> (Continue, s1, logged)
                          | Some i \<Rightarrow>
                              if i = [] then (Continue, s1, logged)
                              else if modify_sl_order_ok b new_sl_price
                              then (Raised NameError, s1, [ModifySL i new_sl_price])
                              else (Continue, s1, ModifySL i new_sl_price # logged)
                     else (Continue, s, [])
            else (Continue, s, [])
          else (Continue, s, [])
      | _ \<Rightarrow> (Continue, s, []))"

text \<open>Block 2, auto-close: read from the leg config only.\<close>

definition check_auto_close ::
    "broker \<Rightarrow> leg_state \<Rightarrow> real \<Rightarrow> real \<Rightarrow> flow \<times> leg_state \<times> event list" where
  "check_auto_close b s current_price pnl_pct =
     (case safe_float (get_param s ''auto_close_profit_pct'' PyNone False) of
        Some auto_close_pct \<Rightarrow>
          if auto_close_pct \<le> pnl_pct
          then exit_and_return b s current_price (AUTO_CLOSE auto_close_pct)
          else (Continue, s, [])
      | None \<Rightarrow> (Continue, s, []))"

text \<open>
  Mode 2, lock once then trail. Stage 1 sets the exit target when the profit reaches the
  lock trigger, and moves the stop to the locked price when the leg has a stop order on the
  broker. A lock trigger disabled in the config makes the comparison raise.
\<close>

definition lock_stage1 ::
    "broker \<Rightarrow> leg_state \<Rightarrow> real \<Rightarrow> real \<Rightarrow> real option \<Rightarrow> flow \<times> leg_state \<times> event list" where
  "lock_stage1 b s pnl_pct first_lock_pct lock_trigger_pct =
     (if first_lock_achieved s then (Continue, s, [])
      else case lock_trigger_pct of
        None \<Rightarrow> (Raised TypeError, s, [])
      | Some trigger \<Rightarrow>
          if trigger \<le> pnl_pct
          then
            let s1 = s\<lparr>first_lock_achieved := True, profit_exit_target := Some first_lock_pct,
                       last_trail_level := pnl_pct\<rparr>;
                logged = (if persistence b then [LogEvent ''PROFIT_LOCK_TRIGGERED''] else [])
            in case entry_price s1 of
                 PyNum entry \<Rightarrow>
                   let profit_lock_price = entry * (1 + first_lock_pct / 100) in
                   (case sl_order_id s1 of
                      None \<Rightarrow> (Continue, s1, logged)
                    | Some i \<Rightarrow>
                        if i = [] then (Continue, s1, logged)
                        else
                          let s2 = s1\<lparr>current_sl := Some profit_lock_price\<rparr>;
                              modify = ModifySL i profit_lock_price
                          in case current_sl s1 of
                               None \<Rightarrow> (Raised TypeError, s2, [modify])
                             | Some old_sl \<Rightarrow>
                                 if modify_sl_order_ok b profit_lock_price
                                 then (case py_div (old_sl - entry) entry of
                                         Inl e \<Rightarrow> (Raised e, s2, [modify])
                                       | Inr d \<Rightarrow> (Continue, s2, modify # logged))
                                 else (Continue, s2, modify # logged))
               | _ \<Rightarrow> (Raised TypeError, s1, [])
          else (Continue, s, []))"

text \<open>Stage 2: the profit fell back to the exit target.\<close>

definition lock_stage2 ::
    "broker \<Rightarrow> leg_state \<Rightarrow> real \<Rightarrow> real \<Rightarrow> flow \<times> leg_state \<times> event list" where
  "lock_stage2 b s current_price pnl_pct =
     (if first_lock_achieved s
      then (case profit_exit_target s of
              None \<Rightarrow> (Continue, s, [])
            | Some target \<Rightarrow>
                if pnl_pct \<le> target
                then exit_and_return b s current_price (TRAIL_EXIT target)
                else (Continue, s, []))
      else (Continue, s, []))"

text \<open>
  Stage 3: the exit target trails up by \<^verbatim>\<open>trail_move_pct\<close> for every whole
  \<^verbatim>\<open>trail_trigger_pct\<close> of profit gained since the last trail, capped half a percent under
  the current profit.
\<close>

definition lock_stage3 ::
    "broker \<Rightarrow> leg_state \<Rightarrow> real \<Rightarrow> real \<Rightarrow> real \<Rightarrow> flow \<times> leg_state \<times> event list" where
  "lock_stage3 b s pnl_pct trail_trigger_pct trail_move_pct =
     (if first_lock_achieved s
      then (case profit_exit_target s of
              None \<Rightarrow> (Continue, s, [])
            | Some old_target \<Rightarrow>
                let profit_increase = pnl_pct - last_trail_level s in
                if trail_trigger_pct \<le> profit_increase
                then (case py_div profit_increase trail_trigger_pct of
                        Inl e \<Rightarrow> (Raised e, s, [])
                      | Inr q \<Rightarrow>
                          let intervals_crossed = py_int q;
                              raised_target = old_target + trail_move_pct * of_int intervals_crossed;
                              max_exit_target = pnl_pct - 1 / 2;
                              new_target = (if max_exit_target < raised_target
                                            then max_exit_target else raised_target);
                              s1 = s\<lparr>profit_exit_target := Some new_target,
                                      last_trail_level := pnl_pct\<rparr>;
                              logged = (if persistence b
                                        then [LogEvent ''PROFIT_EXIT_TRAILED''] else [])
                          in case sl_order_id s1 of
                               None \<Rightarrow> (Continue, s1, logged)
                             | Some i \<Rightarrow>
                                 if i = [] then (Continue, s1, logged)
                                 else (case entry_price s1 of
                                         PyNum entry \<Rightarrow>
                                           let new_sl_price = entry * (1 + new_target / 100);
                                               s2 = s1\<lparr>current_sl := Some new_sl_price\<rparr>;
                                               modify = ModifySL i new_sl_price
                                           in if modify_sl_order_ok b new_sl_price \<and> current_sl s1 = None
                                              then (Raised TypeError, s2, [modify])
                                              else (Continue, s2, modify # logged)
                                       | _ \<Rightarrow> (Raised TypeError, s1, [])))
                else (Continue, s, []))
      else (Continue, s, []))"

definition lock_then_trail ::
    "broker \<Rightarrow> leg_state \<Rightarrow> real \<Rightarrow> real \<Rightarrow> real \<Rightarrow> real \<Rightarrow> real \<Rightarrow>
     flow \<times> leg_state \<times> event list" where
  "lock_then_trail b s current_price pnl_pct first_lock_pct trail_trigger_pct trail_move_pct =
     (let lock_trigger_pct = safe_float (get_param s ''lock_trigger_pct'' (PyNum first_lock_pct) True);
          s0 = (if profit_exit_target s = None
                then s\<lparr>profit_exit_target := None, last_trail_level := 0,
                       first_lock_achieved := False\<rparr>
                else s)
      in and_then (lock_stage1 b s0 pnl_pct first_lock_pct lock_trigger_pct)
           (\<lambda>s1. and_then (lock_stage2 b s1 current_price pnl_pct)
              (\<lambda>s2. lock_stage3 b s2 pnl_pct trail_trigger_pct trail_move_pct)))"

text \<open>
  Mode 3, the escalating lock: the escalated target is written back into the leg config.
  Mode 1, the simple lock.
\<close>

definition escalating_lock ::
    "broker \<Rightarrow> leg_state \<Rightarrow> real \<Rightarrow> real \<Rightarrow> real \<Rightarrow> real \<Rightarrow> real \<Rightarrow>
     flow \<times> leg_state \<times> event list" where
  "escalating_lock b s current_price pnl_pct lock_profit_pct profit_lock_step profit_step_threshold =
     (let level = (case profit_level_for_lock_increase s of
                     None \<Rightarrow> lock_profit_pct + profit_step_threshold
                   | Some l \<Rightarrow> l);
          s1 = s\<lparr>profit_level_for_lock_increase := Some level\<rparr>;
          escalate = (level \<le> pnl_pct);
          target = (if escalate then lock_profit_pct + profit_lock_step else lock_profit_pct);
          s2 = (if escalate
                then s1\<lparr>profit_level_for_lock_increase := Some (level + profit_step_threshold),
                        config := (config s1)(''lock_profit_pct'' \<mapsto> PyNum target)\<rparr>
                else s1)
      in if target \<le> pnl_pct
         then (case exit_leg_position b s2 (PyNum current_price) PROFIT_LOCK of
                 (s', ev) \<Rightarrow> (Continue, s', ev))
         else (Continue, s2, []))"

definition simple_lock ::
    "broker \<Rightarrow> leg_state \<Rightarrow> real \<Rightarrow> real \<Rightarrow> real \<Rightarrow> flow \<times> leg_state \<times> event list" where
  "simple_lock b s current_price pnl_pct lock_profit_pct =
     (if lock_profit_pct \<le> pnl_pct
      then (case exit_leg_position b s (PyNum current_price) PROFIT_LOCK of
              (s', ev) \<Rightarrow> (Continue, s', ev))
      else (Continue, s, []))"

text \<open>Block 3: the mode is chosen by the parameters the leg config itself sets.\<close>

definition profit_management ::
    "broker \<Rightarrow> leg_state \<Rightarrow> real \<Rightarrow> real \<Rightarrow> flow \<times> leg_state \<times> event list" where
  "profit_management b s current_price pnl_pct =
     (let first_lock_pct = safe_float (get_param s ''first_lock_pct'' PyNone False);
          trail_trigger_pct = safe_float (get_param s ''trail_trigger_pct'' PyNone False);
          trail_move_pct = safe_float (get_param s ''trail_move_pct'' PyNone False);
          lock_profit_pct = safe_float (get_param s ''lock_profit_pct'' PyNone False);
          profit_lock_step = safe_float (get_param s ''profit_lock_step'' PyNone False);
          profit_step_threshold = safe_float (get_param s ''profit_step_threshold'' PyNone False)
      in case (first_lock_pct, trail_trigger_pct, trail_move_pct) of
           (Some fl, Some tt, Some tm) \<Rightarrow> lock_then_trail b s current_price pnl_pct fl tt tm
         | _ \<Rightarrow>
           (case (profit_lock_step, profit_step_threshold, lock_profit_pct) of
              (Some st, Some th, Some lp) \<Rightarrow> escalating_lock b s current_price pnl_pct lp st th
            | _ \<Rightarrow>
              (case lock_profit_pct of
                 Some lp \<Rightarrow> simple_lock b s current_price pnl_pct lp
               | None \<Rightarrow> (Continue, s, []))))"

definition manage_position_unified ::
    "broker \<Rightarrow> leg_state \<Rightarrow> real \<Rightarrow> real \<Rightarrow> exn option \<times> leg_state \<times> event list" where
  "manage_position_unified b s current_price pnl_pct =
     (case and_then (trail_stop_loss b s pnl_pct)
             (\<lambda>s1. and_then (check_auto_close b s1 current_price pnl_pct)
                (\<lambda>s2. profit_management b s2 current_price pnl_pct)) of
        (fl, s', ev) \<Rightarrow> ((case fl of Raised e \<Rightarrow> Some e | _ \<Rightarrow> None), s', ev))"

section \<open>The price handler (\<^verbatim>\<open>SehwagStrategy._handle_price_update\<close>)\<close>

text \<open>
  A zero price is no price (\<^verbatim>\<open>not current_price\<close>); a missing highest price or stop makes
  the float check raise, which is caught with a return. The stop breach is tested before the
  risk manager runs. The once-a-second monitoring log line at the end is not modelled.
\<close>

definition exit_on_breach ::
    "broker \<Rightarrow> leg_state \<Rightarrow> real \<Rightarrow> event list \<Rightarrow> exn option \<times> leg_state \<times> event list" where
  "exit_on_breach b s current_price before =
     (case exit_leg_position b s (PyNum current_price) SL_BREACH of
        (s', ev) \<Rightarrow> (None, s', before @ ev))"

definition order_done :: "string \<Rightarrow> bool" where
  "order_done status =
     (lower status = ''complete'' \<or> lower status = ''filled'' \<or> lower status = ''executed'')"

text \<open>
  The block run on a breach of the stop: when the broker reports the leg's stop order as
  done the leg is closed without an order, otherwise it is exited by hand.
\<close>

definition stop_breached ::
    "broker \<Rightarrow> leg_state \<Rightarrow> real \<Rightarrow> real \<Rightarrow> real \<Rightarrow> exn option \<times> leg_state \<times> event list" where
  "stop_breached b s current_price pnl pnl_pct =
     (case sl_order_id s of
        None \<Rightarrow> exit_on_breach b s current_price []
      | Some i \<Rightarrow>
          if i = [] then exit_on_breach b s current_price []
          else (case check_order_status b of
                  Inr (Some status) \<Rightarrow>
                    if order_done status
                    then (None,
                          s\<lparr>exiting := True, is_active := False, sl_order_id := None,
                             exit_price := PyNum current_price,
                             exit_reason := Some SL_EXECUTED_ON_BROKER\<rparr>,
                          CheckOrderStatus i #
                          (if persistence b
                           then [RecordLegExit (leg_num s) (PyNum current_price)
                                   SL_EXECUTED_ON_BROKER pnl pnl_pct]
                           else []))
                    else exit_on_breach b s current_price [CheckOrderStatus i]
                | _ \<Rightarrow> exit_on_breach b s current_price [CheckOrderStatus i]))"

definition handle_price_update ::
    "broker \<Rightarrow> leg_state \<Rightarrow> real \<Rightarrow> exn option \<times> leg_state \<times> event list" where
  "handle_price_update b s current_price =
     (if \<not> is_active s \<or> current_price = 0 then (None, s, [])
      else if exiting s then (None, s, [])
      else case (highest_price s, current_sl s) of
        (Some highest, Some stop) \<Rightarrow>
          let s1 = (if highest < current_price then s\<lparr>highest_price := Some current_price\<rparr> else s)
          in (case calculate_pnl s1 (PyNum current_price) of
                Inl e \<Rightarrow> (Some e, s1, [])
              | Inr (pnl, pnl_pct) \<Rightarrow>
                  if current_price \<le> stop
                  then stop_breached b s1 current_price pnl pnl_pct
                  else manage_position_unified b s1 current_price pnl_pct)
      | _ \<Rightarrow> (None, s, []))"

section \<open>Scenario: lock-then-trail\<close>

text \<open>
  A leg entered at 100 whose config sets \<^verbatim>\<open>lock_trigger_pct\<close> 4, \<^verbatim>\<open>first_lock_pct\<close> 2,
  \<^verbatim>\<open>trail_trigger_pct\<close> 2 and \<^verbatim>\<open>trail_move_pct\<close> 1; the risk manager run over a path of
  (price, profit percentage) pairs, giving the state after each; and the risk state of a leg
  in this mode once the lock has triggered, with exit target \<open>t\<close> and last trail level \<open>l\<close>.
\<close>

definition lock_config :: "string \<rightharpoonup> pyval" where
  "lock_config = [''lock_trigger_pct'' \<mapsto> PyNum 4, ''first_lock_pct'' \<mapsto> PyNum 2,
      ''trail_trigger_pct'' \<mapsto> PyNum 2, ''trail_move_pct'' \<mapsto> PyNum 1]"

definition lock_leg :: leg_state where
  "lock_leg = entered_leg\<lparr>config := lock_config\<rparr>"

fun manage_path :: "broker \<Rightarrow> leg_state \<Rightarrow> (real \<times> real) list \<Rightarrow> leg_state list" where
  "manage_path b s [] = []"
| "manage_path b s ((price, pnl_pct) # rest) =
     (case manage_position_unified b s price pnl_pct of (e, s', ev) \<Rightarrow> s' # manage_path b s' rest)"

definition locked :: "leg_state \<Rightarrow> real \<Rightarrow> real \<Rightarrow> bool" where
  "locked s t l = (config s = lock_config \<and> strategy_defaults s = Map.empty \<and> is_active s
     \<and> \<not> exiting s \<and> first_lock_achieved s \<and> profit_exit_target s = Some t
     \<and> last_trail_level s = l \<and> is_num (entry_price s) \<and> current_sl s \<noteq> None)"

section \<open>Scenario: trailing stop\<close>

text \<open>
  The leg entered at 100 with a stop at 93, its config trailing the stop by 1 percent for
  every 2 percent of profit.
\<close>

definition trail_leg :: leg_state where
  "trail_leg = entered_leg\<lparr>config :=
     [''sl_trail_trigger_pct'' \<mapsto> PyNum 2, ''sl_trail_move_pct'' \<mapsto> PyNum 1]\<rparr>"

section \<open>Wait and trade (\<^verbatim>\<open>SehwagStrategy._wait_for_trade_confirmation\<close>)\<close>

text \<open>
  The local variables of the confirmation loop that survive an iteration.
\<close>

record wait_state =
  reference_price :: real
  target_price :: real
  highest_since_reference :: real
  reset_count :: nat

text \<open>
  How the function ends: \<open>Confirmed\<close> is the return of \<^verbatim>\<open>True\<close>, \<open>TimedOut\<close> and
  \<open>NoInitialPrice\<close> are returns of \<^verbatim>\<open>False\<close>, \<open>WaitRaised\<close> is an exception leaving the
  function, and \<open>Waiting\<close> is the loop still running, with its variables, after the
  observations given.
\<close>

datatype wait_outcome =
  Confirmed nat | TimedOut nat | NoInitialPrice | WaitRaised exn | Waiting wait_state

text \<open>
  The body of the loop for a price that is present and not zero: peak tracking, the
  threshold test, then the reset test. The threshold test comes first and returns. The
  percentage moved divides by the reference price and the drop by the peak. The periodic
  log line is not modelled.
\<close>

definition wait_step ::
    "real \<Rightarrow> bool \<Rightarrow> real option \<Rightarrow> wait_state \<Rightarrow> real \<Rightarrow> exn + (bool \<times> wait_state)" where
  "wait_step threshold_pct reset_enabled reset_drop_pct st current_price =
     (let st1 = (if highest_since_reference st < current_price
                 then st\<lparr>highest_since_reference := current_price\<rparr> else st)
      in case py_div (current_price - reference_price st1) (reference_price st1) of
           Inl e \<Rightarrow> Inl e
         | Inr m \<Rightarrow>
             if target_price st1 \<le> current_price then Inr (True, st1)
             else (case reset_drop_pct of
                     None \<Rightarrow> Inr (False, st1)
                   | Some drop_pct \<Rightarrow>
                       if reset_enabled \<and> drop_pct \<noteq> 0
                       then (case py_div (highest_since_reference st1 - current_price)
                                    (highest_since_reference st1) of
                               Inl e \<Rightarrow> Inl e
                             | Inr d \<Rightarrow>
                                 if drop_pct \<le> d * 100
                                 then Inr (False,
                                        st1\<lparr>reset_count := reset_count st1 + 1,
                                            reference_price := current_price,
                                            target_price := current_price * (1 + threshold_pct / 100),
                                            highest_since_reference := current_price\<rparr>)
                                 else Inr (False, st1))
                       else Inr (False, st1)))"

text \<open>
  The loop over the observations it makes: each iteration reads a price (\<open>None\<close> when
  neither the WebSocket nor the quote gives one) and, at its end, the clock (\<open>True\<close> when
  the timeout has passed).
\<close>

fun wait_loop ::
    "real \<Rightarrow> bool \<Rightarrow> real option \<Rightarrow> wait_state \<Rightarrow> (real option \<times> bool) list \<Rightarrow> wait_outcome" where
  "wait_loop threshold_pct reset_enabled reset_drop_pct st [] = Waiting st"
| "wait_loop threshold_pct reset_enabled reset_drop_pct st ((price, timed_out) # rest) =
     (case (case price of
              None \<Rightarrow> Inr (False, st)
            | Some current_price \<Rightarrow>
                if current_price = 0 then Inr (False, st)
                else wait_step threshold_pct reset_enabled reset_drop_pct st current_price) of
        Inl e \<Rightarrow> WaitRaised e
      | Inr (reached, st') \<Rightarrow>
          if reached then Confirmed (reset_count st')
          else if timed_out then TimedOut (reset_count st')
          else wait_loop threshold_pct reset_enabled reset_drop_pct st' rest)"

text \<open>\<open>initial_quote\<close>: the \<^verbatim>\<open>ltp\<close> of the first quote, \<open>None\<close> without one.\<close>

definition wait_for_trade_confirmation ::
    "real \<Rightarrow> bool \<Rightarrow> real option \<Rightarrow> pyval option \<Rightarrow> (real option \<times> bool) list \<Rightarrow> wait_outcome" where
  "wait_for_trade_confirmation threshold_pct reset_enabled reset_drop_pct initial_quote observations =
     (case initial_quote of
        None \<Rightarrow> NoInitialPrice
      | Some v \<Rightarrow>
          (case py_float v of
             Inl e \<Rightarrow> WaitRaised e
           | Inr reference \<Rightarrow>
               wait_loop threshold_pct reset_enabled reset_drop_pct
                 \<lparr>reference_price = reference,
                  target_price = reference * (1 + threshold_pct / 100),
                  highest_since_reference = reference, reset_count = 0\<rparr>
                 observations))"

text \<open>A path of prices observed before the timeout.\<close>

definition observed :: "real list \<Rightarrow> (real option \<times> bool) list" where
  "observed prices = map (\<lambda>p. (Some p, False)) prices"

section \<open>The entry-time gate (\<^verbatim>\<open>is_market_open\<close>, \<^verbatim>\<open>SehwagStrategy._run_leg_thread\<close>)\<close>

text \<open>
  \<^verbatim>\<open>is_market_open\<close> returns \<^verbatim>\<open>True\<close> in its first statement. The statements after it,
  which never run, are \<open>market_hours\<close>: a weekday, between 09:15 and 15:30.
\<close>

definition is_market_open :: "datetime \<Rightarrow> bool" where
  "is_market_open now = True"

definition market_hours :: "datetime \<Rightarrow> bool" where
  "market_hours now =
     (if 5 \<le> weekday now then False
      else dt_le (replace_time now 9 15 0) now
           \<and> dt_le now (replace_time now 15 30 0))"

text \<open>
  What \<^verbatim>\<open>_run_leg_thread\<close> does between the wait for the entry time and the breakout check:
  \<open>now\<close> is the clock read after the wait, \<open>clock\<close> the one \<^verbatim>\<open>is_market_open\<close> reads;
  \<open>end_hour\<close> and \<open>end_minute\<close> are the strategy's end time.
\<close>

datatype gate = SkipEntry | CheckBreakout

definition entry_gate :: "nat \<Rightarrow> nat \<Rightarrow> leg_state \<Rightarrow> datetime \<Rightarrow> datetime \<Rightarrow> gate" where
  "entry_gate end_hour end_minute s now clock =
     (if (case exit_time s of
            None \<Rightarrow> dt_le (replace_time now end_hour end_minute 0) now
          | Some t \<Rightarrow> dt_le t now)
      then SkipEntry
      else if \<not> is_market_open clock then SkipEntry
      else CheckBreakout)"

text \<open>Saturday 6 December 2025, 10:00:00, and the same day at 15:00:00.\<close>

definition saturday_10 :: datetime where
  "saturday_10 = \<lparr> ordinal = 739591, hour = 10, minute = 0, second = 0, microsecond = 0 \<rparr>"

definition saturday_15 :: datetime where
  "saturday_15 = \<lparr> ordinal = 739591, hour = 15, minute = 0, second = 0, microsecond = 0 \<rparr>"

section \<open>The order manager (\<^verbatim>\<open>order_manager.py\<close>)\<close>

text \<open>The settings of \<^verbatim>\<open>OrderManager\<close> that the functions below read.\<close>

record order_manager =
  test_mode :: bool
  auto_place_orders :: bool
  place_sl_order_enabled :: bool
  om_exit_action :: string
  sl_limit_buffer_percent :: real

text \<open>The defaults of the constructor with orders switched on: a live order manager.\<close>

definition live_orders :: order_manager where
  "live_orders = \<lparr> test_mode = False, auto_place_orders = True, place_sl_order_enabled = True,
     om_exit_action = ''SELL'', sl_limit_buffer_percent = 15 / 1000 \<rparr>"

subsection \<open>The position guard\<close>

text \<open>
  A quantity entry of a position: an int, a string that \<^verbatim>\<open>int()\<close> parses, or another true
  value that \<^verbatim>\<open>int()\<close> rejects. A position of the book is a dict, seen through the three
  keys read for the symbol and the three read for the quantity (\<open>None\<close>: key absent or
  value \<^verbatim>\<open>None\<close>); an item of the book that is not a dict makes \<^verbatim>\<open>.get\<close> raise.
\<close>

datatype qty = QInt int | QIntStr int | QOther

record position_entry =
  p_symbol :: "string option"
  p_tradingsymbol :: "string option"
  p_Symbol :: "string option"
  p_quantity :: "qty option"
  p_netqty :: "qty option"
  p_Quantity :: "qty option"

datatype book_item = Position position_entry | NotADict

text \<open>
  What \<^verbatim>\<open>client.positionbook()\<close> answers: a raise, something that is not a dict, or a dict
  with its \<^verbatim>\<open>status\<close> and its \<^verbatim>\<open>data\<close> (the empty list also for absent or \<^verbatim>\<open>None\<close>).
\<close>

datatype book_response = BookRaises | BookNotDict | Book "string option" "book_item list"

text \<open>Python's \<^verbatim>\<open>a or b\<close> on the symbol and quantity entries.\<close>

fun or_symbol :: "string option \<Rightarrow> string option \<Rightarrow> string option" where
  "or_symbol (Some s) b = (if s \<noteq> [] then Some s else b)"
| "or_symbol None b = b"

fun qty_true :: "qty option \<Rightarrow> bool" where
  "qty_true None = False"
| "qty_true (Some (QInt n)) = (n \<noteq> 0)"
| "qty_true (Some (QIntStr n)) = True"
| "qty_true (Some QOther) = True"

definition or_qty :: "qty option \<Rightarrow> qty option \<Rightarrow> qty option" where
  "or_qty a b = (if qty_true a then a else b)"

definition pos_symbol :: "position_entry \<Rightarrow> string option" where
  "pos_symbol p = or_symbol (or_symbol (p_symbol p) (p_tradingsymbol p)) (p_Symbol p)"

text \<open>The quantity: the \<^verbatim>\<open>or\<close> chain ending in 0, then \<^verbatim>\<open>int()\<close> with 0 on a raise.\<close>

definition pos_quantity :: "position_entry \<Rightarrow> int" where
  "pos_quantity p =
     (case or_qty (or_qty (or_qty (p_quantity p) (p_netqty p)) (p_Quantity p)) (Some (QInt 0)) of
        Some (QInt n) \<Rightarrow> n
      | Some (QIntStr n) \<Rightarrow> n
      | Some QOther \<Rightarrow> 0
      | None \<Rightarrow> 0)"

text \<open>The loop over the book: \<open>Inl\<close> is the raise on an item that is not a dict.\<close>

fun find_position :: "book_item list \<Rightarrow> string \<Rightarrow> exn + bool" where
  "find_position [] ticker = Inr False"
| "find_position (NotADict # rest) ticker = Inl AttributeError"
| "find_position (Position p # rest) ticker =
     (if pos_symbol p = Some ticker \<and> pos_quantity p \<noteq> 0 then Inr True
      else find_position rest ticker)"

text \<open>
  \<^verbatim>\<open>verify_position_exists\<close>: the book is not read in test or simulation mode; every
  failure of the query answers \<^verbatim>\<open>True\<close>.
\<close>

definition verify_position_exists :: "order_manager \<Rightarrow> book_response \<Rightarrow> string \<Rightarrow> bool" where
  "verify_position_exists om book ticker =
     (if test_mode om \<or> \<not> auto_place_orders om then True
      else case book of
        BookRaises \<Rightarrow> True
      | BookNotDict \<Rightarrow> True
      | Book status positions_data \<Rightarrow>
          if status \<noteq> Some ''success'' then True
          else if positions_data = [] then False
          else (case find_position positions_data ticker of
                  Inl e \<Rightarrow> True
                | Inr found \<Rightarrow> found))"

text \<open>
  What \<^verbatim>\<open>client.placeorder(...)\<close> answers: a raise (also for an answer without \<^verbatim>\<open>.get\<close>), or
  a dict with its \<^verbatim>\<open>status\<close> and \<^verbatim>\<open>orderid\<close>.
\<close>

datatype order_response = OrderRaises | OrderResponse "string option" "string option"

datatype broker_call = PositionBookCall | PlaceOrderCall string int string

text \<open>
  \<^verbatim>\<open>place_order\<close>: the order id returned and the calls made to the broker, in order.
  \<open>stamp\<close> is \<^verbatim>\<open>int(time.time())\<close> as printed into a simulated order id.
\<close>

definition place_order ::
    "order_manager \<Rightarrow> book_response \<Rightarrow> order_response \<Rightarrow> string \<Rightarrow> string \<Rightarrow> int \<Rightarrow> string \<Rightarrow>
     string option \<times> broker_call list" where
  "place_order om book answer stamp ticker qty_wanted act =
     (let guard = (act = om_exit_action om);
          queried = (if guard \<and> \<not> (test_mode om \<or> \<not> auto_place_orders om)
                     then [PositionBookCall] else [])
      in if guard \<and> \<not> verify_position_exists om book ticker then (None, queried)
         else if test_mode om then (Some (''TEST_ORDER_'' @ ticker @ ''_'' @ stamp), queried)
         else if \<not> auto_place_orders om then (Some (''SIM_ORDER_'' @ ticker @ ''_'' @ stamp), queried)
         else (case answer of
                 OrderRaises \<Rightarrow> None
               | OrderResponse status orderid \<Rightarrow>
                   if status = Some ''success'' then orderid else None,
               queried @ [PlaceOrderCall ticker qty_wanted act]))"

text \<open>A position of the book under the key \<^verbatim>\<open>symbol\<close> with the quantity under \<^verbatim>\<open>quantity\<close>.\<close>

definition book_position :: "string \<Rightarrow> int \<Rightarrow> book_item" where
  "book_position s n = Position \<lparr> p_symbol = Some s, p_tradingsymbol = None, p_Symbol = None,
     p_quantity = Some (QInt n), p_netqty = None, p_Quantity = None \<rparr>"

text \<open>Whether a position of the book carries the symbol under any of the three keys.\<close>

definition lists_symbol :: "position_entry \<Rightarrow> string \<Rightarrow> bool" where
  "lists_symbol p ticker =
     (p_symbol p = Some ticker \<or> p_tradingsymbol p = Some ticker \<or> p_Symbol p = Some ticker)"

fun absent_or_flat :: "string \<Rightarrow> book_item \<Rightarrow> bool" where
  "absent_or_flat ticker (Position p) = (\<not> lists_symbol p ticker \<or> pos_quantity p = 0)"
| "absent_or_flat ticker NotADict = False"

subsection \<open>The stop order: modify and cancel\<close>

text \<open>\<^verbatim>\<open>round_to_tick_size\<close> with the default tick of 0.05.\<close>

definition round_to_tick_size :: "real \<Rightarrow> real" where
  "round_to_tick_size price = of_int (py_round (price / (5 / 100))) * (5 / 100)"

text \<open>
  What \<^verbatim>\<open>modifyorder\<close> and \<^verbatim>\<open>cancelorder\<close> answer: a raise (also for an answer without
  \<^verbatim>\<open>.get\<close>), or a dict with its \<^verbatim>\<open>status\<close> and its \<^verbatim>\<open>message\<close>: absent, a string, or
  something else (on which \<^verbatim>\<open>.lower()\<close> raises).
\<close>

datatype message = NoMessage | Message string | OtherMessage

datatype api_response = ApiRaises | ApiResponse "string option" message

text \<open>The test for an order that is already done, on the lower-cased message.\<close>

definition already_done :: "string \<Rightarrow> bool" where
  "already_done error_msg =
     (contains ''not a pending order'' (lower error_msg)
      \<or> contains ''already executed'' (lower error_msg))"

text \<open>
  What a call reports: the value returned and the level of the log line that ends it
  (\<open>None\<close>: it returns without a line).
\<close>

datatype level = LogInfo | LogError

definition failed_response :: "message \<Rightarrow> bool \<Rightarrow> bool \<times> level option" where
  "failed_response msg done_result =
     (case msg of
        OtherMessage \<Rightarrow> (False, Some LogError)
      | NoMessage \<Rightarrow>
          (if already_done ''Unknown error'' then (done_result, Some LogInfo)
           else (False, Some LogError))
      | Message error_msg \<Rightarrow>
          (if already_done error_msg then (done_result, Some LogInfo)
           else (False, Some LogError)))"

text \<open>
  \<^verbatim>\<open>cancel_sl_order\<close>: an order the broker reports as already done counts as cancelled.
\<close>

definition cancel_sl_order ::
    "order_manager \<Rightarrow> string option \<Rightarrow> api_response \<Rightarrow> bool \<times> level option" where
  "cancel_sl_order om order_id answer =
     (if \<not> auto_place_orders om \<or> \<not> place_sl_order_enabled om \<or> \<not> some_id order_id
      then (False, None)
      else if test_mode om then (True, Some LogInfo)
      else case answer of
        ApiRaises \<Rightarrow> (False, Some LogError)
      | ApiResponse status msg \<Rightarrow>
          if status = Some ''success'' then (True, Some LogInfo)
          else failed_response msg True)"

text \<open>
  \<^verbatim>\<open>modify_sl_order\<close>: the log line before the call divides the buffer by the rounded
  trigger, so a trigger that rounds to zero raises before the broker is asked. An order
  the broker reports as already done gives \<^verbatim>\<open>False\<close>, as a failure does, with an info line.
\<close>

definition modify_sl_order ::
    "order_manager \<Rightarrow> string option \<Rightarrow> real \<Rightarrow> api_response \<Rightarrow> bool \<times> level option" where
  "modify_sl_order om order_id new_stop_price answer =
     (if \<not> auto_place_orders om \<or> \<not> place_sl_order_enabled om \<or> \<not> some_id order_id
      then (False, None)
      else if test_mode om then (True, Some LogInfo)
      else
        let rounded_trigger = round_to_tick_size new_stop_price;
            buffer = rounded_trigger * sl_limit_buffer_percent om
        in case py_div buffer rounded_trigger of
             Inl e \<Rightarrow> (False, Some LogError)
           | Inr shown \<Rightarrow>
               (case answer of
                  ApiRaises \<Rightarrow> (False, Some LogError)
                | ApiResponse status msg \<Rightarrow>
                    if status = Some ''success'' then (True, Some LogInfo)
                    else failed_response msg False))"

section \<open>The quote fetch (\<^verbatim>\<open>market_data.py\<close>)\<close>

text \<open>
  What \<^verbatim>\<open>client.quotes(...)\<close> answers: a raise of \<^verbatim>\<open>KeyError\<close>, another raise, something
  that is not a dict, or a dict with its \<^verbatim>\<open>status\<close>, its \<^verbatim>\<open>message\<close>, its own \<^verbatim>\<open>ltp\<close>
  entry (\<open>None\<close>: no such key) and its \<^verbatim>\<open>data\<close> entry. A dict that carries a price is
  seen through its \<^verbatim>\<open>ltp\<close> entry.
\<close>

datatype quote_data = NoData | DataDict "pyval option" | DataList "pyval option list" | OtherData

datatype quote_response =
  QuoteKeyError | QuoteRaises | QuoteNotDict
  | QuoteDict "string option" message "pyval option" quote_data

text \<open>The calls to the quote API (by attempt number) and the sleeps between them, in seconds.\<close>

datatype quote_event = QuoteCall nat | Sleep real

text \<open>An iteration of the retry loop returns, or sleeps and goes on to the next attempt.\<close>

datatype 'a attempt = Returned 'a | Again real

text \<open>The classification of an error message as transient.\<close>

definition transient :: "string \<Rightarrow> bool" where
  "transient error_msg =
     (contains ''WinError 10035'' error_msg \<or> contains ''HTTP 500'' error_msg
      \<or> contains ''timeout'' (lower error_msg))"

text \<open>
  The handler of \<^verbatim>\<open>except Exception\<close> in \<^verbatim>\<open>get_quote\<close>, which is also what a transient
  error does: back off by half a second times the attempt number, or give up on the last
  attempt. \<^verbatim>\<open>attempt < max_retries - 1\<close> is written \<open>Suc attempt < max_retries\<close>.
\<close>

definition back_off :: "nat \<Rightarrow> nat \<Rightarrow> 'a option attempt" where
  "back_off max_retries attempt =
     (if Suc attempt < max_retries then Again (real (attempt + 1) * (1 / 2)) else Returned None)"

definition short_wait :: "nat \<Rightarrow> nat \<Rightarrow> 'a option attempt" where
  "short_wait max_retries attempt =
     (if Suc attempt < max_retries then Again (1 / 2) else Returned None)"

text \<open>
  One iteration of the loop of \<^verbatim>\<open>get_quote\<close>. A message that is not a string makes the
  substring test raise, into the general handler.
\<close>

definition quote_attempt :: "nat \<Rightarrow> nat \<Rightarrow> quote_response \<Rightarrow> pyval option option attempt" where
  "quote_attempt max_retries attempt q =
     (case q of
        QuoteKeyError \<Rightarrow> short_wait max_retries attempt
      | QuoteRaises \<Rightarrow> back_off max_retries attempt
      | QuoteNotDict \<Rightarrow> short_wait max_retries attempt
      | QuoteDict status msg ltp payload \<Rightarrow>
          if status = Some ''error''
          then (case msg of
                  OtherMessage \<Rightarrow> back_off max_retries attempt
                | NoMessage \<Rightarrow>
                    (if transient ''Unknown error'' then back_off max_retries attempt
                     else Returned None)
                | Message error_msg \<Rightarrow>
                    (if transient error_msg then back_off max_retries attempt
                     else Returned None))
          else (case payload of
                  DataDict (Some v) \<Rightarrow> Returned (Some (Some v))
                | _ \<Rightarrow>
                    (case ltp of
                       Some v \<Rightarrow> Returned (Some (Some v))
                     | None \<Rightarrow>
                         (case payload of
                            DataList (d # ds) \<Rightarrow> Returned (Some d)
                          | _ \<Rightarrow> short_wait max_retries attempt))))"

text \<open>
  The loop \<^verbatim>\<open>for attempt in range(max_retries)\<close>; \<open>client\<close> gives the answer to each
  attempt. Falling out of the loop returns \<^verbatim>\<open>None\<close>.
\<close>

fun quote_loop ::
    "nat \<Rightarrow> (nat \<Rightarrow> quote_response) \<Rightarrow> nat list \<Rightarrow> pyval option option \<times> quote_event list" where
  "quote_loop max_retries client [] = (None, [])"
| "quote_loop max_retries client (attempt # rest) =
     (case quote_attempt max_retries attempt (client attempt) of
        Returned r \<Rightarrow> (r, [QuoteCall attempt])
      | Again w \<Rightarrow>
          (case quote_loop max_retries client rest of
             (r, ev) \<Rightarrow> (r, QuoteCall attempt # Sleep w # ev)))"

text \<open>
  \<^verbatim>\<open>get_quote\<close>: \<open>ws_price\<close> is the price the WebSocket branch obtains (\<open>None\<close> when the
  WebSocket is off, not connected or has no price); the quote returned is seen through its
  \<^verbatim>\<open>ltp\<close> entry.
\<close>

definition get_quote ::
    "real option \<Rightarrow> (nat \<Rightarrow> quote_response) \<Rightarrow> pyval option option \<times> quote_event list" where
  "get_quote ws_price client =
     (case ws_price of
        Some p \<Rightarrow> (if p \<noteq> 0 then (Some (Some (PyNum p)), []) else quote_loop 3 client [0..<3])
      | None \<Rightarrow> quote_loop 3 client [0..<3])"

text \<open>
  \<^verbatim>\<open>get_underlying_price\<close>: the same loop with its own reading of the answer; on the last
  attempt its handler raises again, and the function's outer handler returns \<^verbatim>\<open>None\<close>.
\<close>

definition raise_or_back_off :: "nat \<Rightarrow> nat \<Rightarrow> exn \<Rightarrow> exn + real option attempt" where
  "raise_or_back_off max_retries attempt e =
     (if Suc attempt < max_retries then Inr (Again (real (attempt + 1) * (1 / 2))) else Inl e)"

definition price_of :: "nat \<Rightarrow> nat \<Rightarrow> pyval \<Rightarrow> exn + real option attempt" where
  "price_of max_retries attempt v =
     (case py_float v of
        Inl e \<Rightarrow> raise_or_back_off max_retries attempt e
      | Inr r \<Rightarrow> Inr (Returned (Some r)))"

definition underlying_attempt ::
    "nat \<Rightarrow> nat \<Rightarrow> quote_response \<Rightarrow> exn + real option attempt" where
  "underlying_attempt max_retries attempt q =
     (case q of
        QuoteKeyError \<Rightarrow> raise_or_back_off max_retries attempt KeyError
      | QuoteRaises \<Rightarrow> raise_or_back_off max_retries attempt ApiError
      | QuoteNotDict \<Rightarrow> Inr (short_wait max_retries attempt)
      | QuoteDict status msg ltp payload \<Rightarrow>
          if status = Some ''error''
          then (case msg of
                  OtherMessage \<Rightarrow> raise_or_back_off max_retries attempt TypeError
                | NoMessage \<Rightarrow>
                    (if transient ''Unknown error'' then Inr (back_off max_retries attempt)
                     else Inr (Returned None))
                | Message error_msg \<Rightarrow>
                    (if transient error_msg then Inr (back_off max_retries attempt)
                     else Inr (Returned None)))
          else (case payload of
                  DataDict d \<Rightarrow>
                    (case d of
                       Some v \<Rightarrow>
                         (if truthy v then price_of max_retries attempt v
                          else Inr (short_wait max_retries attempt))
                     | None \<Rightarrow> Inr (short_wait max_retries attempt))
                | _ \<Rightarrow>
                    (case ltp of
                       Some v \<Rightarrow> price_of max_retries attempt v
                     | None \<Rightarrow>
                         (case payload of
                            DataList (Some v # ds) \<Rightarrow>
                              (if truthy v then price_of max_retries attempt v
                               else Inr (short_wait max_retries attempt))
                          | _ \<Rightarrow> Inr (short_wait max_retries attempt)))))"

fun underlying_loop ::
    "nat \<Rightarrow> (nat \<Rightarrow> quote_response) \<Rightarrow> nat list \<Rightarrow> (exn + real option) \<times> quote_event list" where
  "underlying_loop max_retries client [] = (Inr None, [])"
| "underlying_loop max_retries client (attempt # rest) =
     (case underlying_attempt max_retries attempt (client attempt) of
        Inl e \<Rightarrow> (Inl e, [QuoteCall attempt])
      | Inr (Returned r) \<Rightarrow> (Inr r, [QuoteCall attempt])
      | Inr (Again w) \<Rightarrow>
          (case underlying_loop max_retries client rest of
             (r, ev) \<Rightarrow> (r, QuoteCall attempt # Sleep w # ev)))"

definition get_underlying_price ::
    "real option \<Rightarrow> nat \<Rightarrow> (nat \<Rightarrow> quote_response) \<Rightarrow> real option \<times> quote_event list" where
  "get_underlying_price ws_price max_retries client =
     (let fetch = (case underlying_loop max_retries client [0..<max_retries] of
                     (Inl e, ev) \<Rightarrow> (None, ev)
                   | (Inr r, ev) \<Rightarrow> (r, ev))
      in case ws_price of
           Some p \<Rightarrow> (if p \<noteq> 0 then (Some p, []) else fetch)
         | None \<Rightarrow> fetch)"

text \<open>
  An answer that is an error with a transient message, and one that is an error with a
  message that is not transient.
\<close>

fun transient_error :: "quote_response \<Rightarrow> bool" where
  "transient_error (QuoteDict status NoMessage ltp payload) =
     (status = Some ''error'' \<and> transient ''Unknown error'')"
| "transient_error (QuoteDict status (Message error_msg) ltp payload) =
     (status = Some ''error'' \<and> transient error_msg)"
| "transient_error q = False"

fun plain_error :: "quote_response \<Rightarrow> bool" where
  "plain_error (QuoteDict status NoMessage ltp payload) =
     (status = Some ''error'' \<and> \<not> transient ''Unknown error'')"
| "plain_error (QuoteDict status (Message error_msg) ltp payload) =
     (status = Some ''error'' \<and> \<not> transient error_msg)"
| "plain_error q = False"

text \<open>Two answers of the quote API: a read timeout, and an invalid symbol.\<close>

definition timeout_answer :: quote_response where
  "timeout_answer = QuoteDict (Some ''error'') (Message ''Read Timeout from broker'') None NoData"

definition invalid_answer :: quote_response where
  "invalid_answer = QuoteDict (Some ''error'') (Message ''Invalid symbol'') None NoData"

text \<open>
  Two more: a server error other than 500, and an error whose \<^verbatim>\<open>message\<close> entry is
  \<^verbatim>\<open>None\<close>.
\<close>

definition unavailable_answer :: quote_response where
  "unavailable_answer =
     QuoteDict (Some ''error'') (Message ''HTTP 503 Service Unavailable'') None NoData"

definition null_message_answer :: quote_response where
  "null_message_answer = QuoteDict (Some ''error'') OtherMessage None NoData"

chapter \<open>Properties\<close>

section \<open>P\&L computation\<close>

text \<open>
  Claim C10. \<^verbatim>\<open>LegState.calculate_pnl\<close> is total and never divides by zero: for every leg
  state and every current price it returns a pair and raises nothing; when the entry price
  is \<^verbatim>\<open>None\<close>, or the entry price or the current price fails the float conversion, the pair
  is \<open>(0, 0)\<close>; and when the entry price converts to zero the percentage returned is \<open>0\<close>.
\<close>

theorem calculate_pnl_total:
  "(\<exists>pnl pct. calculate_pnl s cp = Inr (pnl, pct))
   \<and> (entry_price s = PyNone \<or> isl (py_float (entry_price s)) \<or> isl (py_float cp)
        \<longrightarrow> calculate_pnl s cp = Inr (0, 0))
   \<and> (py_float (entry_price s) = Inr 0 \<longrightarrow> (\<exists>pnl. calculate_pnl s cp = Inr (pnl, 0)))"
proof (intro conjI impI)
  show "\<exists>pnl pct. calculate_pnl s cp = Inr (pnl, pct)"
    by (auto simp: calculate_pnl_def py_div_def Let_def split: sum.splits)
next
  assume "entry_price s = PyNone \<or> isl (py_float (entry_price s)) \<or> isl (py_float cp)"
  then show "calculate_pnl s cp = Inr (0, 0)"
    by (auto simp: calculate_pnl_def isl_def split: sum.splits)
next
  assume "py_float (entry_price s) = Inr 0"
  then show "\<exists>pnl. calculate_pnl s cp = Inr (pnl, 0)"
    by (auto simp: calculate_pnl_def Let_def split: sum.splits)
qed

theorem calculate_pnl_total_witness:
  "calculate_pnl (new_leg\<lparr>entry_price := PyStr ''n/a''\<rparr>) (PyNum 101) = Inr (0, 0)
   \<and> calculate_pnl (new_leg\<lparr>entry_price := PyNum 100\<rparr>) PyNone = Inr (0, 0)
   \<and> calculate_pnl new_leg (PyNum 101) = Inr (0, 0)
   \<and> calculate_pnl (new_leg\<lparr>entry_price := PyNum 0\<rparr>) (PyNum 5) = Inr (375, 0)
   \<and> calculate_pnl (new_leg\<lparr>entry_price := PyNum 100\<rparr>) (PyNum 101) = Inr (75, 1)"
  using calculate_pnl_total [of "new_leg\<lparr>entry_price := PyStr ''n/a''\<rparr>" "PyNum 101"]
    calculate_pnl_total [of "new_leg\<lparr>entry_price := PyNum 100\<rparr>" PyNone]
    calculate_pnl_total [of new_leg "PyNum 101"]
    calculate_pnl_total [of "new_leg\<lparr>entry_price := PyNum 0\<rparr>" "PyNum 5"]
  by (simp add: calculate_pnl_def new_leg_def py_div_def)

section \<open>Exit is idempotent\<close>

text \<open>
  A call of \<^verbatim>\<open>_exit_leg_position\<close> on a leg that is exiting or inactive changes nothing
  and calls nobody; every call leaves the leg in such a state; so of any sequence of exit
  attempts only the first can act.
\<close>

lemma exit_noop:
  "exiting s \<or> \<not> is_active s \<Longrightarrow> exit_leg_position b s px r = (s, [])"
  by (simp add: exit_leg_position_def)

lemma exit_closes:
  "exiting (fst (exit_leg_position b s px r)) \<or> \<not> is_active (fst (exit_leg_position b s px r))"
  by (auto simp: exit_leg_position_def Let_def split: sum.splits prod.splits)

lemma exit_attempts_noop:
  "exiting s \<or> \<not> is_active s \<Longrightarrow> exit_attempts b s as = (s, [])"
  by (induction as) (auto simp: exit_noop)

lemma exit_attempts_first:
  "exit_attempts b s ((px, r) # rest) = exit_leg_position b s px r"
proof -
  obtain s1 ev1 where e: "exit_leg_position b s px r = (s1, ev1)"
    by (cases "exit_leg_position b s px r")
  have "exiting s1 \<or> \<not> is_active s1"
    using exit_closes [of b s px r] e by simp
  then have "exit_attempts b s1 rest = (s1, [])"
    by (rule exit_attempts_noop)
  with e show ?thesis by simp
qed

lemma exit_orders_le1:
  "length (filter is_exit_order (snd (exit_leg_position b s px r))) \<le> 1"
  by (auto simp: exit_leg_position_def Let_def split: sum.splits prod.splits option.splits)

lemma exit_records_le1:
  "length (filter is_pnl_record (snd (exit_leg_position b s px r))) \<le> 1"
  by (auto simp: exit_leg_position_def Let_def split: sum.splits prod.splits option.splits)

lemma exit_states_noop:
  "exiting s \<or> \<not> is_active s \<Longrightarrow> deactivations (exit_states b s as) = 0"
proof (induction as)
  case Nil
  then show ?case by simp
next
  case (Cons a as)
  obtain px r where a: "a = (px, r)" by (cases a)
  have st: "exit_leg_position b s px r = (s, [])" using Cons.prems by (rule exit_noop)
  have "deactivations (exit_states b s as) = 0" using Cons by simp
  then show ?case using a st by (cases as) auto
qed

lemma deactivations_le1: "deactivations (exit_states b s as) \<le> 1"
proof (cases as)
  case Nil
  then show ?thesis by simp
next
  case (Cons a rest)
  obtain px r where a: "a = (px, r)" by (cases a)
  let ?s1 = "fst (exit_leg_position b s px r)"
  have "deactivations (exit_states b ?s1 rest) = 0"
    using exit_closes [of b s px r] by (rule exit_states_noop)
  then show ?thesis using Cons a by (cases rest) auto
qed

lemma calc_inr: "\<exists>p q. calculate_pnl s cp = Inr (p, q)"
  by (auto simp: calculate_pnl_def py_div_def Let_def split: sum.splits)

lemma exit_active_order:
  assumes "is_active s" "\<not> exiting s"
  shows "length (filter is_exit_order (snd (exit_leg_position b s px r))) = 1
    \<and> exit_price (fst (exit_leg_position b s px r)) = px
    \<and> exit_reason (fst (exit_leg_position b s px r)) = Some r
    \<and> \<not> is_active (fst (exit_leg_position b s px r))
    \<and> exiting (fst (exit_leg_position b s px r))"
proof -
  obtain p q where c: "calculate_pnl (s\<lparr>exiting := True, is_active := False\<rparr>) px = Inr (p, q)"
    using calc_inr by blast
  show ?thesis using assms c
    by (auto simp: exit_leg_position_def Let_def split: option.splits)
qed

lemma exit_active_record:
  assumes "is_active s" "\<not> exiting s" "persistence b" "summary_formats s px"
  shows "filter is_pnl_record (snd (exit_leg_position b s px r)) =
     [RecordLegExit (leg_num s) px r
        (fst (projr (calculate_pnl s px))) (snd (projr (calculate_pnl s px)))]"
proof -
  obtain p q where c: "calculate_pnl s px = Inr (p, q)"
    using calc_inr by blast
  have "calculate_pnl (s\<lparr>exiting := True, is_active := False\<rparr>) px = calculate_pnl s px"
    by (simp add: calculate_pnl_def Let_def split: sum.splits)
  then have c': "calculate_pnl (s\<lparr>exiting := True, is_active := False\<rparr>) px = Inr (p, q)"
    using c by simp
  show ?thesis using assms c c'
    by (auto simp: exit_leg_position_def Let_def summary_formats_def split: option.splits)
qed

lemma exit_position_noop:
  "\<not> lp_is_active lp \<Longrightarrow> exit_position buy oid now lp x = (None, lp, [])"
  by (simp add: exit_position_def)

lemma exit_position_closes:
  "\<not> lp_is_active (fst (snd (exit_position buy oid now lp x)))"
  by (auto simp: exit_position_def Let_def split: sum.splits prod.splits)

lemma exit_position_attempts_noop:
  "\<not> lp_is_active lp \<Longrightarrow> exit_position_attempts buy lp as = (lp, [])"
  by (induction as) (auto simp: exit_position_noop)

lemma exit_position_attempts_first:
  "exit_position_attempts buy lp ((x, oid, now) # rest) = snd (exit_position buy oid now lp x)"
proof -
  obtain e lp1 ev1 where e: "exit_position buy oid now lp x = (e, lp1, ev1)"
    by (cases "exit_position buy oid now lp x")
  have "\<not> lp_is_active lp1"
    using exit_position_closes [of buy oid now lp x] e by simp
  then have "exit_position_attempts buy lp1 rest = (lp1, [])"
    by (rule exit_position_attempts_noop)
  with e show ?thesis by simp
qed

text \<open>
  Claim C1, as amended. Exit is idempotent, on both exit paths. For
  \<^verbatim>\<open>_exit_leg_position\<close>: once the exit has run (\<open>is_active\<close> false or \<open>_exiting\<close> set) a call is a no-op, returning the
  state as it was with no call to the broker or the persistence sink; after any call the leg
  is in that state; a sequence of attempts does exactly what its first attempt does; over
  any sequence \<open>is_active\<close> goes from true to false at most once, at most one exit order
  is placed and at most one final P\&L record is written. For a leg that is active and not
  exiting, the first attempt places exactly one exit order and writes the exit price and
  reason that stay, and (with a persistence sink, and the exit summary's numbers present)
  the sequence writes exactly one final P\&L record, that of the first attempt. For
  \<^verbatim>\<open>PositionManager.exit_position\<close>: a call on an inactive position is a no-op, every
  call leaves the position inactive, and a sequence of attempts does what its first does.
  The claim as written promises exactly one final P\&L record for every exit; the
  counterexample below shows two exits that write none.
\<close>

theorem exit_idempotent:
  "(exiting s \<or> \<not> is_active s \<longrightarrow> exit_leg_position b s px r = (s, []))
   \<and> (exiting (fst (exit_leg_position b s px r)) \<or> \<not> is_active (fst (exit_leg_position b s px r)))
   \<and> exit_attempts b s ((px, r) # rest) = exit_leg_position b s px r
   \<and> deactivations (exit_states b s attempts) \<le> 1
   \<and> length (filter is_exit_order (snd (exit_attempts b s attempts))) \<le> 1
   \<and> length (filter is_pnl_record (snd (exit_attempts b s attempts))) \<le> 1
   \<and> (is_active s \<and> \<not> exiting s \<longrightarrow>
        length (filter is_exit_order (snd (exit_attempts b s ((px, r) # rest)))) = 1
        \<and> exit_price (fst (exit_attempts b s ((px, r) # rest))) = px
        \<and> exit_reason (fst (exit_attempts b s ((px, r) # rest))) = Some r
        \<and> \<not> is_active (fst (exit_attempts b s ((px, r) # rest))))
   \<and> (is_active s \<and> \<not> exiting s \<and> persistence b \<and> summary_formats s px \<longrightarrow>
        filter is_pnl_record (snd (exit_attempts b s ((px, r) # rest))) =
          [RecordLegExit (leg_num s) px r
             (fst (projr (calculate_pnl s px))) (snd (projr (calculate_pnl s px)))])
   \<and> (\<not> lp_is_active lp \<longrightarrow> exit_position buy oid now lp x = (None, lp, []))
   \<and> \<not> lp_is_active (fst (snd (exit_position buy oid now lp x)))
   \<and> exit_position_attempts buy lp ((x, oid, now) # others) = snd (exit_position buy oid now lp x)"
proof -
  have counts: "length (filter is_exit_order (snd (exit_attempts b s attempts))) \<le> 1
      \<and> length (filter is_pnl_record (snd (exit_attempts b s attempts))) \<le> 1"
  proof (cases attempts)
    case Nil
    then show ?thesis by simp
  next
    case (Cons a as)
    obtain px' r' where "a = (px', r')" by (cases a)
    then show ?thesis
      using Cons exit_attempts_first [of b s px' r' as] exit_orders_le1 [of b s px' r']
        exit_records_le1 [of b s px' r']
      by simp
  qed
  show ?thesis
    using counts exit_noop [of s b px r] exit_closes [of b s px r]
      exit_attempts_first [of b s px r rest] deactivations_le1 [of b s attempts]
      exit_active_order [of s b px r] exit_active_record [of s b px r]
      exit_position_noop [of lp buy oid now x] exit_position_closes [of buy oid now lp x]
      exit_position_attempts_first [of buy lp x oid now others]
    by simp
qed

theorem exit_idempotent_witness:
  "exit_attempts live_broker entered_leg [(PyNum 93, SL_BREACH), (PyNum 90, TIME_EXIT)] =
     (entered_leg\<lparr>exiting := True, is_active := False, sl_order_id := None,
        exit_price := PyNum 93, exit_reason := Some SL_BREACH\<rparr>,
      [CancelSL ''SL1'', PlaceOrder (Some ''NIFTY02DEC2524500CE'') 75 ExitAction,
       RecordLegExit 1 (PyNum 93) SL_BREACH (- 525) (- 7), LogEvent ''POSITION_CLOSED''])
   \<and> exit_leg_position live_broker
        (entered_leg\<lparr>exiting := True, is_active := False, exit_price := PyNum 93\<rparr>)
        (PyNum 90) TIME_EXIT =
       (entered_leg\<lparr>exiting := True, is_active := False, exit_price := PyNum 93\<rparr>, [])
   \<and> exit_position_attempts True new_position
        [(93, Some ''ORD2'', ''10:00:00''), (90, Some ''ORD3'', ''10:00:01'')] =
       (new_position\<lparr>lp_is_active := False, lp_exit_price := Some 93,
          lp_exit_time := Some ''10:00:00'', lp_pnl := - 525, lp_pnl_pct := - 7\<rparr>,
        [PlaceOrder (Some ''NIFTY02DEC2524500CE'') 75 ExitAction])
   \<and> exit_position True (Some ''ORD3'') ''10:00:01'' (new_position\<lparr>lp_is_active := False\<rparr>) 90 =
       (None, new_position\<lparr>lp_is_active := False\<rparr>, [])"
  using exit_idempotent [of entered_leg live_broker "PyNum 93" SL_BREACH
      "[(PyNum 90, TIME_EXIT)]" "[(PyNum 93, SL_BREACH), (PyNum 90, TIME_EXIT)]"
      new_position True "Some ''ORD2''" "''10:00:00''" 93 "[(90, Some ''ORD3'', ''10:00:01'')]"]
    exit_idempotent [of "entered_leg\<lparr>exiting := True, is_active := False, exit_price := PyNum 93\<rparr>"
      live_broker "PyNum 90" TIME_EXIT "[]" "[]"
      "new_position\<lparr>lp_is_active := False\<rparr>" True "Some ''ORD3''" "''10:00:01''" 90 "[]"]
  by (simp add: exit_leg_position_def exit_position_def lp_calculate_pnl_def calculate_pnl_def
      py_div_def summary_formats_def entered_leg_def new_leg_def live_broker_def
      new_position_def)

text \<open>
  Two exits that leave no final P\&L record. With no persistence sink
  (\<^verbatim>\<open>if self.persistence:\<close>) the exit cancels the stop and places the exit order, and
  records nothing. With a persistence sink and the exit price \<^verbatim>\<open>None\<close>, which is what the
  monitor loop passes for \<^verbatim>\<open>TIME_EXIT\<close> when it has no price, the summary line
  \<^verbatim>\<open>f"{exit_price:.2f}"\<close> raises, the function's handler catches it, and
  \<^verbatim>\<open>record_leg_exit\<close> is never reached. In both the second attempt is a no-op.
\<close>

theorem exit_idempotent_counterexample:
  "exit_attempts sim_broker entered_leg [(PyNum 93, SL_BREACH), (PyNum 90, TIME_EXIT)] =
     (entered_leg\<lparr>exiting := True, is_active := False, sl_order_id := None,
        exit_price := PyNum 93, exit_reason := Some SL_BREACH\<rparr>,
      [CancelSL ''SL1'', PlaceOrder (Some ''NIFTY02DEC2524500CE'') 75 ExitAction])
   \<and> exit_attempts live_broker entered_leg [(PyNone, TIME_EXIT), (PyNum 90, SL_BREACH)] =
     (entered_leg\<lparr>exiting := True, is_active := False, sl_order_id := None,
        exit_price := PyNone, exit_reason := Some TIME_EXIT\<rparr>,
      [CancelSL ''SL1'', PlaceOrder (Some ''NIFTY02DEC2524500CE'') 75 ExitAction])
   \<and> persistence live_broker
   \<and> filter is_pnl_record (snd (exit_attempts sim_broker entered_leg
        [(PyNum 93, SL_BREACH), (PyNum 90, TIME_EXIT)])) = []
   \<and> filter is_pnl_record (snd (exit_attempts live_broker entered_leg
        [(PyNone, TIME_EXIT), (PyNum 90, SL_BREACH)])) = []"
  by (simp add: exit_leg_position_def calculate_pnl_def py_div_def summary_formats_def
      entered_leg_def new_leg_def live_broker_def sim_broker_def)

section \<open>Lock-then-trail\<close>

text \<open>
  With the scenario's config the trailing stop and the auto-close are off and the risk
  manager is the lock-then-trail mode; a locked leg either exits (profit at or under the
  target) or stays locked with the target trailed.
\<close>

lemma lock_params:
  assumes "config s = lock_config" "strategy_defaults s = Map.empty"
  shows "get_param s ''sl_trail_trigger_pct'' PyNone True = PyNone"
    "get_param s ''sl_trail_move_pct'' PyNone True = PyNone"
    "get_param s ''auto_close_profit_pct'' PyNone False = PyNone"
    "get_param s ''first_lock_pct'' PyNone False = PyNum 2"
    "get_param s ''trail_trigger_pct'' PyNone False = PyNum 2"
    "get_param s ''trail_move_pct'' PyNone False = PyNum 1"
    "get_param s ''lock_trigger_pct'' d True = PyNum 4"
  using assms by (simp_all add: get_param_def lock_config_def)

lemma no_trail:
  assumes "config s = lock_config" "strategy_defaults s = Map.empty"
  shows "trail_stop_loss b s p = (Continue, s, [])"
  by (simp add: trail_stop_loss_def lock_params [OF assms])

lemma no_auto_close:
  assumes "config s = lock_config" "strategy_defaults s = Map.empty"
  shows "check_auto_close b s price p = (Continue, s, [])"
  by (simp add: check_auto_close_def lock_params [OF assms])

lemma lock_mode:
  assumes "config s = lock_config" "strategy_defaults s = Map.empty"
  shows "profit_management b s price p = lock_then_trail b s price p 2 2 1"
  by (simp add: profit_management_def lock_params [OF assms])

lemma manage_lock_mode:
  assumes "config s = lock_config" "strategy_defaults s = Map.empty"
  shows "manage_position_unified b s price p =
    (case lock_then_trail b s price p 2 2 1 of
       (fl, s', ev) \<Rightarrow> ((case fl of Raised e \<Rightarrow> Some e | _ \<Rightarrow> None), s', ev))"
  by (simp add: manage_position_unified_def and_then_def no_trail [OF assms]
      no_auto_close [OF assms] lock_mode [OF assms] split: prod.splits)

lemma stage3_cases:
  assumes "first_lock_achieved s" "profit_exit_target s = Some t" "is_num (entry_price s)"
    "current_sl s \<noteq> None"
  shows "\<exists>s' ev. lock_stage3 b s p 2 1 = (Continue, s', ev)
     \<and> config s' = config s \<and> strategy_defaults s' = strategy_defaults s
     \<and> is_active s' = is_active s \<and> exiting s' = exiting s \<and> first_lock_achieved s'
     \<and> is_num (entry_price s') \<and> current_sl s' \<noteq> None
     \<and> profit_exit_target s' =
          (if 2 \<le> p - last_trail_level s
           then Some (min (t + of_int (py_int ((p - last_trail_level s) / 2))) (p - 1 / 2))
           else Some t)
     \<and> last_trail_level s' = (if 2 \<le> p - last_trail_level s then p else last_trail_level s)"
proof -
  obtain e where e: "entry_price s = PyNum e" using assms(3) by (cases "entry_price s") auto
  obtain c where c: "current_sl s = Some c" using assms(4) by auto
  show ?thesis
    using assms(1,2) e c
    by (auto simp: lock_stage3_def py_div_def Let_def min_def split: option.splits)
qed


lemma locked_step:
  assumes "locked s t l" "t < p"
  shows "\<exists>s' ev. manage_position_unified b s price p = (None, s', ev)
     \<and> locked s' (if 2 \<le> p - l then min (t + of_int (py_int ((p - l) / 2))) (p - 1 / 2) else t)
          (if 2 \<le> p - l then p else l)"
proof -
  have cfg: "config s = lock_config" "strategy_defaults s = Map.empty"
    using assms(1) by (simp_all add: locked_def)
  have st: "first_lock_achieved s" "profit_exit_target s = Some t" "is_num (entry_price s)"
    "current_sl s \<noteq> None"
    using assms(1) by (simp_all add: locked_def)
  obtain s' ev where s3: "lock_stage3 b s p 2 1 = (Continue, s', ev)"
    and keep: "config s' = config s" "strategy_defaults s' = strategy_defaults s"
      "is_active s' = is_active s" "exiting s' = exiting s" "first_lock_achieved s'"
      "is_num (entry_price s')" "current_sl s' \<noteq> None"
    and tgt: "profit_exit_target s' =
          (if 2 \<le> p - last_trail_level s
           then Some (min (t + of_int (py_int ((p - last_trail_level s) / 2))) (p - 1 / 2))
           else Some t)"
    and lvl: "last_trail_level s' = (if 2 \<le> p - last_trail_level s then p else last_trail_level s)"
    using stage3_cases [OF st, of b p] by blast
  have s1: "lock_stage1 b s p 2 (Some 4) = (Continue, s, [])"
    using st(1) by (simp add: lock_stage1_def)
  have s2: "lock_stage2 b s price p = (Continue, s, [])"
    using st(1,2) assms(2) by (simp add: lock_stage2_def)
  have "lock_then_trail b s price p 2 2 1 = (Continue, s', ev)"
    using s1 s2 s3 st(2) by (simp add: lock_then_trail_def and_then_def lock_params [OF cfg])
  then have m: "manage_position_unified b s price p = (None, s', ev)"
    by (simp add: manage_lock_mode [OF cfg])
  have "locked s' (if 2 \<le> p - l then min (t + of_int (py_int ((p - l) / 2))) (p - 1 / 2) else t)
          (if 2 \<le> p - l then p else l)"
    using assms(1) keep tgt lvl by (simp add: locked_def)
  with m show ?thesis by blast
qed

lemma locked_exit:
  assumes "locked s t l" "p \<le> t"
  shows "\<not> is_active (fst (snd (manage_position_unified b s price p)))"
proof -
  have cfg: "config s = lock_config" "strategy_defaults s = Map.empty"
    using assms(1) by (simp_all add: locked_def)
  have st: "first_lock_achieved s" "profit_exit_target s = Some t" "is_active s" "\<not> exiting s"
    using assms(1) by (simp_all add: locked_def)
  have s1: "lock_stage1 b s p 2 (Some 4) = (Continue, s, [])"
    using st(1) by (simp add: lock_stage1_def)
  have s2: "lock_stage2 b s price p = exit_and_return b s price (TRAIL_EXIT t)"
    using st(1,2) assms(2) by (simp add: lock_stage2_def)
  have "fst (snd (lock_then_trail b s price p 2 2 1)) =
      fst (exit_leg_position b s (PyNum price) (TRAIL_EXIT t))"
    using s1 s2 st(2)
    by (simp add: lock_then_trail_def and_then_def lock_params [OF cfg] exit_and_return_def
        split: prod.splits)
  then have "fst (snd (manage_position_unified b s price p)) =
      fst (exit_leg_position b s (PyNum price) (TRAIL_EXIT t))"
    by (cases "lock_then_trail b s price p 2 2 1") (simp add: manage_lock_mode [OF cfg])
  then show ?thesis
    using exit_active_order [OF st(3,4), of b "PyNum price" "TRAIL_EXIT t"] by simp
qed

lemma lock_leg_idle: "manage_position_unified b lock_leg 100 0 = (None, lock_leg, [])"
proof -
  have cfg: "config lock_leg = lock_config" "strategy_defaults lock_leg = Map.empty"
    by (simp_all add: lock_leg_def entered_leg_def new_leg_def)
  have "lock_then_trail b lock_leg 100 0 2 2 1 = (Continue, lock_leg, [])"
    by (simp add: lock_then_trail_def and_then_def lock_params [OF cfg] lock_stage1_def
        lock_stage2_def lock_stage3_def)
      (simp add: lock_leg_def entered_leg_def new_leg_def)
  then show ?thesis by (simp add: manage_lock_mode [OF cfg])
qed

lemma lock_leg_trigger:
  "\<exists>s' ev. manage_position_unified b lock_leg 104 4 = (None, s', ev) \<and> locked s' 2 4"
proof -
  have cfg: "config lock_leg = lock_config" "strategy_defaults lock_leg = Map.empty"
    by (simp_all add: lock_leg_def entered_leg_def new_leg_def)
  have f: "profit_exit_target lock_leg = None" "\<not> first_lock_achieved lock_leg"
    "entry_price lock_leg = PyNum 100" "sl_order_id lock_leg = Some ''SL1''"
    "current_sl lock_leg = Some 93" "is_active lock_leg" "\<not> exiting lock_leg"
    by (simp_all add: lock_leg_def entered_leg_def new_leg_def)
  let ?s0 = "lock_leg\<lparr>profit_exit_target := None, last_trail_level := 0,
      first_lock_achieved := False\<rparr>"
  let ?s2 = "?s0\<lparr>first_lock_achieved := True, profit_exit_target := Some 2,
      last_trail_level := 4, current_sl := Some 102\<rparr>"
  obtain ev where s1: "lock_stage1 b ?s0 4 2 (Some 4) = (Continue, ?s2, ev)"
    using f by (auto simp: lock_stage1_def py_div_def Let_def)
  have s2: "lock_stage2 b ?s2 104 4 = (Continue, ?s2, [])"
    by (simp add: lock_stage2_def)
  have s3: "lock_stage3 b ?s2 4 2 1 = (Continue, ?s2, [])"
    by (simp add: lock_stage3_def)
  have "lock_then_trail b lock_leg 104 4 2 2 1 = (Continue, ?s2, ev)"
    using s1 s2 s3 f(1) by (simp add: lock_then_trail_def and_then_def lock_params [OF cfg])
  then have m: "manage_position_unified b lock_leg 104 4 = (None, ?s2, ev)"
    by (simp add: manage_lock_mode [OF cfg])
  have "locked ?s2 2 4"
    using cfg f by (simp add: locked_def)
  with m show ?thesis by blast
qed


lemma stage3_cap:
  assumes "lock_stage3 b s q tt tm = (fl, s', ev)" "profit_exit_target s' \<noteq> profit_exit_target s"
  shows "\<exists>t'. profit_exit_target s' = Some t' \<and> t' \<le> q - 1 / 2"
  using assms
  by (auto simp: lock_stage3_def Let_def split: if_splits option.splits sum.splits pyval.splits)

lemma scenario_states:
  "\<exists>s2 s3 s4. manage_path b lock_leg [(100, 0), (104, 4), (106, 6), (108, 8)] = [lock_leg, s2, s3, s4]
     \<and> locked s2 2 4 \<and> locked s3 3 6 \<and> locked s4 4 8"
proof -
  obtain s2 ev2 where m2: "manage_position_unified b lock_leg 104 4 = (None, s2, ev2)"
    and l2: "locked s2 2 4"
    using lock_leg_trigger by blast
  obtain s3 ev3 where m3: "manage_position_unified b s2 106 6 = (None, s3, ev3)"
    and l3: "locked s3 3 6"
    using locked_step [OF l2, of 6 b 106] by (auto simp: py_int_def)
  obtain s4 ev4 where m4: "manage_position_unified b s3 108 8 = (None, s4, ev4)"
    and l4: "locked s4 4 8"
    using locked_step [OF l3, of 8 b 108] by (auto simp: py_int_def)
  have "manage_path b lock_leg [(100, 0), (104, 4), (106, 6), (108, 8)] = [lock_leg, s2, s3, s4]"
    by (simp add: lock_leg_idle m2 m3 m4)
  with l2 l3 l4 show ?thesis by blast
qed

text \<open>
  Claim C3. Lock-then-trail with \<^verbatim>\<open>lock_trigger_pct\<close> 4, \<^verbatim>\<open>first_lock_pct\<close> 2,
  \<^verbatim>\<open>trail_trigger_pct\<close> 2, \<^verbatim>\<open>trail_move_pct\<close> 1: over the profit path 0, 4, 6, 8 percent
  the exit target is \<^verbatim>\<open>None\<close>, then 2, 3 and 4 percent, and the leg stays active; after
  the path the next update exits the leg exactly when the profit is at or under 4 percent,
  the last target; and, for every state and parameters, a target that stage 3 changes is
  at most the current profit minus one half.
\<close>

theorem lock_then_trail_scenario:
  "map profit_exit_target (manage_path b lock_leg [(100, 0), (104, 4), (106, 6), (108, 8)])
     = [None, Some 2, Some 3, Some 4]
   \<and> list_all is_active (manage_path b lock_leg [(100, 0), (104, 4), (106, 6), (108, 8)])
   \<and> (is_active (fst (snd (manage_position_unified b
          (last (manage_path b lock_leg [(100, 0), (104, 4), (106, 6), (108, 8)])) price p)))
        \<longleftrightarrow> 4 < p)
   \<and> (lock_stage3 b s q tt tm = (fl, s', ev) \<and> profit_exit_target s' \<noteq> profit_exit_target s
        \<longrightarrow> (\<exists>t'. profit_exit_target s' = Some t' \<and> t' \<le> q - 1 / 2))"
proof -
  obtain s2 s3 s4 where
    path: "manage_path b lock_leg [(100, 0), (104, 4), (106, 6), (108, 8)] = [lock_leg, s2, s3, s4]"
    and l: "locked s2 2 4" "locked s3 3 6" "locked s4 4 8"
    using scenario_states by blast
  have targets: "map profit_exit_target [lock_leg, s2, s3, s4] = [None, Some 2, Some 3, Some 4]"
    using l by (simp add: locked_def lock_leg_def entered_leg_def new_leg_def)
  have active: "list_all is_active [lock_leg, s2, s3, s4]"
    using l by (simp add: locked_def lock_leg_def entered_leg_def new_leg_def)
  have final: "is_active (fst (snd (manage_position_unified b s4 price p))) \<longleftrightarrow> 4 < p"
  proof (cases "4 < p")
    case True
    then show ?thesis using locked_step [OF l(3), of p b price] by (auto simp: locked_def)
  next
    case False
    then show ?thesis using locked_exit [OF l(3), of p b price] by simp
  qed
  show ?thesis
    unfolding path
    using targets active final stage3_cap [of b s q tt tm fl s' ev] by simp
qed

theorem lock_then_trail_scenario_witness:
  "\<not> is_active (fst (snd (manage_position_unified live_broker
          (last (manage_path live_broker lock_leg [(100, 0), (104, 4), (106, 6), (108, 8)])) 104 4)))
   \<and> is_active (fst (snd (manage_position_unified live_broker
          (last (manage_path live_broker lock_leg [(100, 0), (104, 4), (106, 6), (108, 8)])) 105 5)))
   \<and> profit_exit_target (fst (snd (lock_stage3 sim_broker
          (lock_leg\<lparr>first_lock_achieved := True, profit_exit_target := Some 2,
             last_trail_level := 4\<rparr>) 6 2 5))) = Some (11 / 2)
   \<and> (11 / 2 :: real) \<le> 6 - 1 / 2"
proof -
  let ?s = "lock_leg\<lparr>first_lock_achieved := True, profit_exit_target := Some 2,
             last_trail_level := 4\<rparr>"
  have a: "\<not> is_active (fst (snd (manage_position_unified live_broker
          (last (manage_path live_broker lock_leg [(100, 0), (104, 4), (106, 6), (108, 8)])) 104 4)))"
    using lock_then_trail_scenario [where b = live_broker and price = 104 and p = 4]
    by (simp del: manage_path.simps)
  have b: "is_active (fst (snd (manage_position_unified live_broker
          (last (manage_path live_broker lock_leg [(100, 0), (104, 4), (106, 6), (108, 8)])) 105 5)))"
    using lock_then_trail_scenario [where b = live_broker and price = 105 and p = 5]
    by (simp del: manage_path.simps)
  obtain fl s' ev where r: "lock_stage3 sim_broker ?s 6 2 5 = (fl, s', ev)"
    by (cases "lock_stage3 sim_broker ?s 6 2 5")
  have t: "profit_exit_target s' = Some (11 / 2)"
    using r
    by (auto simp: lock_stage3_def py_div_def py_int_def lock_leg_def entered_leg_def new_leg_def
        sim_broker_def Let_def)
  then have "profit_exit_target s' \<noteq> profit_exit_target ?s" by simp
  then have "\<exists>t'. profit_exit_target s' = Some t' \<and> t' \<le> 6 - 1 / 2"
    using r lock_then_trail_scenario [where b = sim_broker and s = ?s and q = 6 and tt = 2
        and tm = 5 and fl = fl and s' = s' and ev = ev]
    by (simp del: manage_path.simps)
  then have c: "(11 / 2 :: real) \<le> 6 - 1 / 2" using t by simp
  have d: "profit_exit_target (fst (snd (lock_stage3 sim_broker ?s 6 2 5))) = Some (11 / 2)"
    using r t by simp
  show ?thesis by (intro conjI a b c d)
qed

section \<open>The initial stop and its breach\<close>

text \<open>
  Entry leaves the leg active with the stop computed from the entry price; the handler
  closes an active leg on any non-zero price at or under its stop, and otherwise hands the
  price to the risk manager.
\<close>

lemma enter_ok:
  assumes "enter_leg_position b s = (True, s', ev)"
  shows "\<exists>E. entry_price s' = PyNum E
     \<and> current_sl s' = Some (E * (1 - initial_sl_pct s / 100))
     \<and> highest_price s' = Some E \<and> is_active s' \<and> exiting s' = exiting s
     \<and> (\<forall>fill. get_fill_price b = Some fill \<and> 0 < fill \<longrightarrow> E = fill)"
  using assms
  by (auto simp: enter_leg_position_def Let_def py_div_def
      split: if_splits option.splits sum.splits)

lemma enter_live:
  "enter_leg_position live_broker (new_leg\<lparr>symbol := Some ''NIFTY02DEC2524500CE''\<rparr>) =
     (True, entered_leg,
      [PlaceOrder (Some ''NIFTY02DEC2524500CE'') 75 EntryAction,
       PlaceSL (Some ''NIFTY02DEC2524500CE'') 75 93, LogEvent ''SL_ORDER_PLACED''])"
  by (simp add: enter_leg_position_def live_broker_def new_leg_def entered_leg_def py_div_def)

lemma exit_on_breach_closes:
  assumes "is_active s" "\<not> exiting s"
  shows "\<not> is_active (fst (snd (exit_on_breach b s p before)))
     \<and> exit_price (fst (snd (exit_on_breach b s p before))) = PyNum p
     \<and> exit_reason (fst (snd (exit_on_breach b s p before))) = Some SL_BREACH"
  using exit_active_order [OF assms, of b "PyNum p" SL_BREACH]
  by (cases "exit_leg_position b s (PyNum p) SL_BREACH") (simp add: exit_on_breach_def)

lemma stop_breached_closes:
  assumes "is_active s" "\<not> exiting s"
  shows "\<not> is_active (fst (snd (stop_breached b s p pnl pct)))
     \<and> exit_price (fst (snd (stop_breached b s p pnl pct))) = PyNum p
     \<and> (exit_reason (fst (snd (stop_breached b s p pnl pct))) = Some SL_BREACH
         \<or> exit_reason (fst (snd (stop_breached b s p pnl pct))) = Some SL_EXECUTED_ON_BROKER)"
  using exit_on_breach_closes [OF assms, of b p]
  by (auto simp: stop_breached_def split: option.splits sum.splits)

lemma breach_exits:
  assumes "is_active s" "\<not> exiting s" "highest_price s = Some h" "current_sl s = Some c"
    "p \<noteq> 0" "p \<le> c"
  shows "\<not> is_active (fst (snd (handle_price_update b s p)))
     \<and> exit_price (fst (snd (handle_price_update b s p))) = PyNum p
     \<and> (exit_reason (fst (snd (handle_price_update b s p))) = Some SL_BREACH
         \<or> exit_reason (fst (snd (handle_price_update b s p))) = Some SL_EXECUTED_ON_BROKER)"
proof -
  define s1 where "s1 = (if h < p then s\<lparr>highest_price := Some p\<rparr> else s)"
  have a: "is_active s1" "\<not> exiting s1" using assms(1,2) by (simp_all add: s1_def)
  obtain pnl pct where c: "calculate_pnl s1 (PyNum p) = Inr (pnl, pct)"
    using calc_inr by blast
  have "handle_price_update b s p = stop_breached b s1 p pnl pct"
    using assms c by (simp add: handle_price_update_def s1_def)
  then show ?thesis
    using stop_breached_closes [OF a, of b p pnl pct] by simp
qed

lemma no_breach:
  assumes "is_active s" "\<not> exiting s" "highest_price s = Some h" "current_sl s = Some c"
    "p \<noteq> 0" "c < p"
  shows "\<exists>pnl pct. calculate_pnl s (PyNum p) = Inr (pnl, pct)
     \<and> handle_price_update b s p =
         manage_position_unified b (if h < p then s\<lparr>highest_price := Some p\<rparr> else s) p pct"
proof -
  obtain pnl pct where c: "calculate_pnl s (PyNum p) = Inr (pnl, pct)"
    using calc_inr by blast
  have "calculate_pnl (s\<lparr>highest_price := Some p\<rparr>) (PyNum p) = calculate_pnl s (PyNum p)"
    by (simp add: calculate_pnl_def Let_def split: sum.splits)
  then show ?thesis
    using assms c by (auto simp: handle_price_update_def Let_def)
qed


lemma manage_no_config:
  assumes "config s = Map.empty" "strategy_defaults s = Map.empty"
  shows "manage_position_unified b s price pct = (None, s, [])"
proof -
  have g: "\<And>k d a. get_param s k d a = d"
    using assms by (simp add: get_param_def)
  show ?thesis
    by (simp add: manage_position_unified_def and_then_def trail_stop_loss_def
        check_auto_close_def profit_management_def g)
qed

lemma pnl_pct_formula:
  assumes "py_float (entry_price s) = Inr E" "E \<noteq> 0" "py_float cp = Inr x"
  shows "calculate_pnl s cp = Inr ((x - E) * of_int (quantity s), (x - E) / E * 100)"
  using assms by (auto simp: calculate_pnl_def py_div_def Let_def)

text \<open>
  Claim C2, as amended. Stop round-trip: for every fill price \<open>E > 0\<close> and every configured
  stop percentage \<open>S\<close> other than 100, an entry that completes sets the entry price to
  \<open>E\<close> and the stop to exactly \<open>E * (1 - S / 100)\<close>; that price fed back as the current
  price closes the leg with a stop-breach reason (\<^verbatim>\<open>SL_BREACH\<close>, or
  \<^verbatim>\<open>SL_EXECUTED_ON_BROKER\<close> when the broker reports the stop order done), whatever the
  collaborators answer; a non-zero price above the stop is passed to the risk manager
  instead; and the leg entered at 100 with \<open>S = 7\<close> gets a stop-breach reason exactly at the
  non-zero prices at or under 93.
\<close>

theorem stop_round_trip:
  assumes "get_fill_price b = Some E" "0 < E" "initial_sl_pct s \<noteq> 100" "\<not> exiting s"
    "enter_leg_position b s = (True, s', ev)"
  shows "entry_price s' = PyNum E
    \<and> current_sl s' = Some (E * (1 - initial_sl_pct s / 100))
    \<and> \<not> is_active (fst (snd (handle_price_update b' s' (E * (1 - initial_sl_pct s / 100)))))
    \<and> exit_price (fst (snd (handle_price_update b' s' (E * (1 - initial_sl_pct s / 100)))))
        = PyNum (E * (1 - initial_sl_pct s / 100))
    \<and> (exit_reason (fst (snd (handle_price_update b' s' (E * (1 - initial_sl_pct s / 100)))))
          = Some SL_BREACH
       \<or> exit_reason (fst (snd (handle_price_update b' s' (E * (1 - initial_sl_pct s / 100)))))
          = Some SL_EXECUTED_ON_BROKER)
    \<and> (E * (1 - initial_sl_pct s / 100) < p \<and> p \<noteq> 0 \<longrightarrow>
         handle_price_update b' s' p =
           manage_position_unified b' (if E < p then s'\<lparr>highest_price := Some p\<rparr> else s') p
             ((p - E) / E * 100))
    \<and> ((exit_reason (fst (snd (handle_price_update b' entered_leg q))) = Some SL_BREACH
         \<or> exit_reason (fst (snd (handle_price_update b' entered_leg q))) = Some SL_EXECUTED_ON_BROKER)
        \<longleftrightarrow> q \<le> 93 \<and> q \<noteq> 0)"
proof -
  let ?stop = "E * (1 - initial_sl_pct s / 100)"
  obtain E' where e: "entry_price s' = PyNum E'" "current_sl s' = Some (E' * (1 - initial_sl_pct s / 100))"
    "highest_price s' = Some E'" "is_active s'" "exiting s' = exiting s"
    "\<forall>fill. get_fill_price b = Some fill \<and> 0 < fill \<longrightarrow> E' = fill"
    using enter_ok [OF assms(5)] by blast
  have E: "E' = E" using e(6) assms(1,2) by simp
  have st: "entry_price s' = PyNum E" "current_sl s' = Some ?stop" "highest_price s' = Some E"
    "is_active s'" "\<not> exiting s'"
    using e assms(4) by (simp_all add: E)
  have nz: "?stop \<noteq> 0" using assms(2,3) by simp
  note br = breach_exits [OF st(4,5,3,2) nz order_refl, of b']
  have above: "?stop < p \<and> p \<noteq> 0 \<longrightarrow>
         handle_price_update b' s' p =
           manage_position_unified b' (if E < p then s'\<lparr>highest_price := Some p\<rparr> else s') p
             ((p - E) / E * 100)"
  proof (intro impI, elim conjE)
    assume p: "?stop < p" "p \<noteq> 0"
    have "calculate_pnl s' (PyNum p) = Inr ((p - E) * of_int (quantity s'), (p - E) / E * 100)"
      using assms(2) by (intro pnl_pct_formula) (simp_all add: st(1))
    then show "handle_price_update b' s' p =
           manage_position_unified b' (if E < p then s'\<lparr>highest_price := Some p\<rparr> else s') p
             ((p - E) / E * 100)"
      using no_breach [OF st(4,5,3,2) p(2,1), of b'] by auto
  qed
  have f: "is_active entered_leg" "\<not> exiting entered_leg" "highest_price entered_leg = Some 100"
    "current_sl entered_leg = Some 93" "config entered_leg = Map.empty"
    "strategy_defaults entered_leg = Map.empty" "exit_reason entered_leg = None"
    by (simp_all add: entered_leg_def new_leg_def)
  have fires: "(exit_reason (fst (snd (handle_price_update b' entered_leg q))) = Some SL_BREACH
         \<or> exit_reason (fst (snd (handle_price_update b' entered_leg q))) = Some SL_EXECUTED_ON_BROKER)
        \<longleftrightarrow> q \<le> 93 \<and> q \<noteq> 0"
  proof (cases "q = 0")
    case True
    then show ?thesis using f by (simp add: handle_price_update_def)
  next
    case False
    show ?thesis
    proof (cases "q \<le> 93")
      case True
      then show ?thesis using breach_exits [OF f(1,2,3,4) False, of b'] False by simp
    next
      case above: False
      then have "93 < q" by simp
      from no_breach [OF f(1,2,3,4) False this, of b']
      obtain pct where "handle_price_update b' entered_leg q =
          manage_position_unified b' (if 100 < q then entered_leg\<lparr>highest_price := Some q\<rparr>
             else entered_leg) q pct"
        by blast
      moreover have "manage_position_unified b'
          (if 100 < q then entered_leg\<lparr>highest_price := Some q\<rparr> else entered_leg) q pct =
          (None, if 100 < q then entered_leg\<lparr>highest_price := Some q\<rparr> else entered_leg, [])"
        by (rule manage_no_config) (simp_all add: f)
      ultimately show ?thesis using above f(7) by simp
    qed
  qed
  show ?thesis using st(1,2) br above fires by simp
qed

theorem stop_round_trip_witness:
  "enter_leg_position live_broker (new_leg\<lparr>symbol := Some ''NIFTY02DEC2524500CE''\<rparr>) =
     (True, entered_leg,
      [PlaceOrder (Some ''NIFTY02DEC2524500CE'') 75 EntryAction,
       PlaceSL (Some ''NIFTY02DEC2524500CE'') 75 93, LogEvent ''SL_ORDER_PLACED''])
   \<and> current_sl entered_leg = Some 93
   \<and> \<not> is_active (fst (snd (handle_price_update sim_broker entered_leg 93)))
   \<and> exit_reason (fst (snd (handle_price_update sim_broker entered_leg 93))) = Some SL_BREACH
   \<and> handle_price_update sim_broker entered_leg (9301 / 100) = (None, entered_leg, [])"
proof -
  have en: "enter_leg_position live_broker (new_leg\<lparr>symbol := Some ''NIFTY02DEC2524500CE''\<rparr>) =
     (True, entered_leg,
      [PlaceOrder (Some ''NIFTY02DEC2524500CE'') 75 EntryAction,
       PlaceSL (Some ''NIFTY02DEC2524500CE'') 75 93, LogEvent ''SL_ORDER_PLACED''])"
    by (rule enter_live)
  have h: "get_fill_price live_broker = Some 100" "(0::real) < 100"
    "initial_sl_pct (new_leg\<lparr>symbol := Some ''NIFTY02DEC2524500CE''\<rparr>) \<noteq> 100"
    "\<not> exiting (new_leg\<lparr>symbol := Some ''NIFTY02DEC2524500CE''\<rparr>)"
    by (simp_all add: live_broker_def new_leg_def)
  note t = stop_round_trip [OF h en, of sim_broker "9301 / 100" 93]
  have m: "manage_position_unified sim_broker entered_leg (9301 / 100) ((9301 / 100 - 100) / 100 * 100)
      = (None, entered_leg, [])"
    by (rule manage_no_config) (simp_all add: entered_leg_def new_leg_def)
  have r: "exit_reason (fst (snd (handle_price_update sim_broker entered_leg 93))) = Some SL_BREACH"
    by (simp add: handle_price_update_def stop_breached_def exit_on_breach_def
        exit_leg_position_def calculate_pnl_def py_div_def sim_broker_def entered_leg_def
        new_leg_def order_done_def)
  show ?thesis using en t m r by (simp add: new_leg_def)
qed

text \<open>
  The claim as stated fails at \<open>S = 100\<close>: the stop is \<open>0\<close>, and the handler takes a
  current price of \<open>0\<close> for no price (\<^verbatim>\<open>not current_price\<close>) and returns with the leg
  still active.
\<close>

theorem stop_round_trip_counterexample:
  "current_sl (fst (snd (enter_leg_position live_broker
        (new_leg\<lparr>symbol := Some ''NIFTY02DEC2524500CE'', initial_sl_pct := 100\<rparr>))))
     = Some (100 * (1 - 100 / 100))
   \<and> is_active (fst (snd (handle_price_update live_broker
        (fst (snd (enter_leg_position live_broker
           (new_leg\<lparr>symbol := Some ''NIFTY02DEC2524500CE'', initial_sl_pct := 100\<rparr>))))
        (100 * (1 - 100 / 100)))))
   \<and> exit_reason (fst (snd (handle_price_update live_broker
        (fst (snd (enter_leg_position live_broker
           (new_leg\<lparr>symbol := Some ''NIFTY02DEC2524500CE'', initial_sl_pct := 100\<rparr>))))
        (100 * (1 - 100 / 100))))) = None"
  by (simp add: enter_leg_position_def handle_price_update_def live_broker_def new_leg_def
      py_div_def)

section \<open>What the stop and target prices are derived from\<close>

lemma stage1_anchored:
  assumes "lock_stage1 b s p fl lt = (flow, s', ev)" "current_sl s' \<noteq> current_sl s"
  shows "\<exists>E. entry_price s = PyNum E \<and> current_sl s' = Some (E * (1 + fl / 100))"
  using assms
  by (auto simp: lock_stage1_def Let_def py_div_def
      split: if_splits option.splits sum.splits pyval.splits)

lemma stage3_anchored:
  assumes "lock_stage3 b s p tt tm = (flow, s', ev)" "current_sl s' \<noteq> current_sl s"
  shows "\<exists>E t'. entry_price s = PyNum E \<and> profit_exit_target s' = Some t'
     \<and> current_sl s' = Some (E * (1 + t' / 100))"
  using assms
  by (auto simp: lock_stage3_def Let_def py_div_def
      split: if_splits option.splits sum.splits pyval.splits)

lemma trail_compounds:
  assumes "trail_stop_loss b s p = (flow, s', ev)" "current_sl s' \<noteq> current_sl s"
  shows "\<exists>old trigger move.
       current_sl s = Some old
     \<and> safe_float (get_param s ''sl_trail_trigger_pct'' PyNone True) = Some trigger
     \<and> safe_float (get_param s ''sl_trail_move_pct'' PyNone True) = Some move
     \<and> current_sl s' =
         Some (old * (1 + move * of_int (py_int ((p - last_sl_trail_level s) / trigger)) / 100))"
  using assms
  by (auto simp: trail_stop_loss_def Let_def split: if_splits option.splits)

lemma pm_trail_anchor:
  assumes "pm_trail_stop cfg lp cp pct = Inr lp'" "lp_current_sl lp' \<noteq> lp_current_sl lp"
  shows "\<exists>tp. cfg ''sl_trail_pct'' = Some (PyNum tp) \<and> lp_current_sl lp' = cp * (1 - tp / 100)"
  using assms
  by (auto simp: pm_trail_stop_def Let_def split: if_splits option.splits pyval.splits)

lemma lp_pnl_formula:
  assumes "lp_entry_price lp \<noteq> 0"
  shows "lp_calculate_pnl lp x True =
     Inr ((x - lp_entry_price lp) * of_int (lp_quantity lp),
          (x - lp_entry_price lp) / lp_entry_price lp * 100)"
  using assms by (simp add: lp_calculate_pnl_def py_div_def)

lemma lp_pnl_formula_sell:
  assumes "lp_entry_price lp \<noteq> 0"
  shows "lp_calculate_pnl lp x False =
     Inr ((lp_entry_price lp - x) * of_int (lp_quantity lp),
          (lp_entry_price lp - x) / lp_entry_price lp * 100)"
  using assms by (simp add: lp_calculate_pnl_def py_div_def)

text \<open>
  Claim C5, as amended. The initial stop is \<open>entry * (1 - S / 100)\<close>; a stop moved by the
  profit lock (stage 1 or stage 3 of lock-then-trail) is \<open>entry * (1 + target / 100)\<close>; the
  profit percentage is \<open>(price - entry) / entry * 100\<close>, in \<^verbatim>\<open>LegState.calculate_pnl\<close> for
  a non-zero entry price and in \<^verbatim>\<open>LegPosition.calculate_pnl\<close> for a bought position (for
  an entry action other than \<^verbatim>\<open>BUY\<close> the latter takes \<open>(entry - price) / entry * 100\<close>). The
  trailing stop is not anchored to the entry price: \<^verbatim>\<open>_manage_position_unified\<close> raises the
  current stop by \<^verbatim>\<open>sl_trail_move * intervals_crossed\<close> percent of itself, and
  \<^verbatim>\<open>PositionManager.manage_position\<close> sets it \<^verbatim>\<open>sl_trail_pct\<close> percent under the current
  price.
\<close>

theorem risk_prices_anchors:
  "(enter_leg_position b s = (True, s1, ev1) \<longrightarrow>
      (\<exists>E. entry_price s1 = PyNum E \<and> current_sl s1 = Some (E * (1 - initial_sl_pct s / 100))))
   \<and> (lock_stage1 b s p fl lt = (f2, s2, ev2) \<and> current_sl s2 \<noteq> current_sl s \<longrightarrow>
      (\<exists>E. entry_price s = PyNum E \<and> current_sl s2 = Some (E * (1 + fl / 100))))
   \<and> (lock_stage3 b s p tt tm = (f3, s3, ev3) \<and> current_sl s3 \<noteq> current_sl s \<longrightarrow>
      (\<exists>E t'. entry_price s = PyNum E \<and> profit_exit_target s3 = Some t'
         \<and> current_sl s3 = Some (E * (1 + t' / 100))))
   \<and> (py_float (entry_price s) = Inr E0 \<and> E0 \<noteq> 0 \<and> py_float cp = Inr x \<longrightarrow>
      calculate_pnl s cp = Inr ((x - E0) * of_int (quantity s), (x - E0) / E0 * 100))
   \<and> (lp_entry_price lp \<noteq> 0 \<longrightarrow>
      lp_calculate_pnl lp y True =
        Inr ((y - lp_entry_price lp) * of_int (lp_quantity lp),
             (y - lp_entry_price lp) / lp_entry_price lp * 100))
   \<and> (lp_entry_price lp \<noteq> 0 \<longrightarrow>
      lp_calculate_pnl lp y False =
        Inr ((lp_entry_price lp - y) * of_int (lp_quantity lp),
             (lp_entry_price lp - y) / lp_entry_price lp * 100))
   \<and> (trail_stop_loss b s p = (f4, s4, ev4) \<and> current_sl s4 \<noteq> current_sl s \<longrightarrow>
      (\<exists>old trigger move.
          current_sl s = Some old
        \<and> safe_float (get_param s ''sl_trail_trigger_pct'' PyNone True) = Some trigger
        \<and> safe_float (get_param s ''sl_trail_move_pct'' PyNone True) = Some move
        \<and> current_sl s4 =
            Some (old * (1 + move * of_int (py_int ((p - last_sl_trail_level s) / trigger)) / 100))))
   \<and> (pm_trail_stop cfg lp price pct = Inr lp' \<and> lp_current_sl lp' \<noteq> lp_current_sl lp \<longrightarrow>
      (\<exists>tp. cfg ''sl_trail_pct'' = Some (PyNum tp) \<and> lp_current_sl lp' = price * (1 - tp / 100)))"
proof (intro conjI impI)
  assume "enter_leg_position b s = (True, s1, ev1)"
  from enter_ok [OF this]
  show "\<exists>E. entry_price s1 = PyNum E \<and> current_sl s1 = Some (E * (1 - initial_sl_pct s / 100))"
    by blast
next
  assume "lock_stage1 b s p fl lt = (f2, s2, ev2) \<and> current_sl s2 \<noteq> current_sl s"
  then show "\<exists>E. entry_price s = PyNum E \<and> current_sl s2 = Some (E * (1 + fl / 100))"
    using stage1_anchored by blast
next
  assume "lock_stage3 b s p tt tm = (f3, s3, ev3) \<and> current_sl s3 \<noteq> current_sl s"
  then show "\<exists>E t'. entry_price s = PyNum E \<and> profit_exit_target s3 = Some t'
         \<and> current_sl s3 = Some (E * (1 + t' / 100))"
    using stage3_anchored by blast
next
  assume "py_float (entry_price s) = Inr E0 \<and> E0 \<noteq> 0 \<and> py_float cp = Inr x"
  then show "calculate_pnl s cp = Inr ((x - E0) * of_int (quantity s), (x - E0) / E0 * 100)"
    using pnl_pct_formula by blast
next
  assume "lp_entry_price lp \<noteq> 0"
  then show "lp_calculate_pnl lp y True =
        Inr ((y - lp_entry_price lp) * of_int (lp_quantity lp),
             (y - lp_entry_price lp) / lp_entry_price lp * 100)"
    by (rule lp_pnl_formula)
next
  assume "lp_entry_price lp \<noteq> 0"
  then show "lp_calculate_pnl lp y False =
        Inr ((lp_entry_price lp - y) * of_int (lp_quantity lp),
             (lp_entry_price lp - y) / lp_entry_price lp * 100)"
    by (rule lp_pnl_formula_sell)
next
  assume "trail_stop_loss b s p = (f4, s4, ev4) \<and> current_sl s4 \<noteq> current_sl s"
  then show "\<exists>old trigger move.
          current_sl s = Some old
        \<and> safe_float (get_param s ''sl_trail_trigger_pct'' PyNone True) = Some trigger
        \<and> safe_float (get_param s ''sl_trail_move_pct'' PyNone True) = Some move
        \<and> current_sl s4 =
            Some (old * (1 + move * of_int (py_int ((p - last_sl_trail_level s) / trigger)) / 100))"
    using trail_compounds by blast
next
  assume "pm_trail_stop cfg lp price pct = Inr lp' \<and> lp_current_sl lp' \<noteq> lp_current_sl lp"
  then show "\<exists>tp. cfg ''sl_trail_pct'' = Some (PyNum tp) \<and> lp_current_sl lp' = price * (1 - tp / 100)"
    using pm_trail_anchor by blast
qed

lemma trail_leg_step:
  "trail_stop_loss sim_broker (trail_leg\<lparr>current_sl := Some c\<rparr>) 2 =
     (Continue,
      if 0 < c then trail_leg\<lparr>current_sl := Some (c * (1 + 1 / 100)), last_sl_trail_level := 2\<rparr>
      else trail_leg\<lparr>current_sl := Some c\<rparr>,
      if 0 < c then [ModifySL ''SL1'' (c * (1 + 1 / 100))] else [])"
  by (simp add: trail_stop_loss_def get_param_def trail_leg_def entered_leg_def new_leg_def
      sim_broker_def py_int_def Let_def)

text \<open>
  The claim as stated fails on the trailing stop. With entry 100, stop 93, a trail of 1
  percent per 2 percent of profit and a profit of 2 percent, the new stop is
  \<open>93 * 1.01 = 93.93\<close>, not \<open>100 * (1 - 6 / 100) = 94\<close>; from a stop of 95 the same update
  gives \<open>95.95\<close>, so no percentage of the entry price describes the update; and the
  position manager's trailing stop at a price of 110 with \<^verbatim>\<open>sl_trail_pct\<close> 5 is
  \<open>110 * 0.95\<close>.
\<close>

theorem risk_prices_anchors_counterexample:
  "current_sl (fst (snd (trail_stop_loss sim_broker trail_leg 2))) = Some (93 * (1 + 1 / 100))
   \<and> (93 * (1 + 1 / 100) :: real) \<noteq> 100 * (1 - (7 - 1) / 100)
   \<and> current_sl (fst (snd (trail_stop_loss sim_broker (trail_leg\<lparr>current_sl := Some 95\<rparr>) 2)))
       = Some (95 * (1 + 1 / 100))
   \<and> \<not> (\<exists>pct. \<forall>c. current_sl (fst (snd (trail_stop_loss sim_broker
                       (trail_leg\<lparr>current_sl := Some c\<rparr>) 2))) = Some (100 * (1 + pct / 100)))
   \<and> pm_trail_stop [''sl_trail_pct'' \<mapsto> PyNum 5] new_position 110 10 =
       Inr (new_position\<lparr>lp_current_sl := 110 * (1 - 5 / 100)\<rparr>)"
proof -
  have a: "trail_leg\<lparr>current_sl := Some 93\<rparr> = trail_leg"
    by (simp add: trail_leg_def entered_leg_def new_leg_def)
  have 1: "current_sl (fst (snd (trail_stop_loss sim_broker trail_leg 2))) = Some (93 * (1 + 1 / 100))"
    using trail_leg_step [of 93] by (simp add: a)
  have 3: "current_sl (fst (snd (trail_stop_loss sim_broker (trail_leg\<lparr>current_sl := Some 95\<rparr>) 2)))
       = Some (95 * (1 + 1 / 100))"
    using trail_leg_step [of 95] by simp
  have 4: "\<not> (\<exists>pct. \<forall>c. current_sl (fst (snd (trail_stop_loss sim_broker
                       (trail_leg\<lparr>current_sl := Some c\<rparr>) 2))) = Some (100 * (1 + pct / 100)))"
  proof
    assume "\<exists>pct. \<forall>c. current_sl (fst (snd (trail_stop_loss sim_broker
                       (trail_leg\<lparr>current_sl := Some c\<rparr>) 2))) = Some (100 * (1 + pct / 100))"
    then obtain pct where h: "\<And>c. current_sl (fst (snd (trail_stop_loss sim_broker
                       (trail_leg\<lparr>current_sl := Some c\<rparr>) 2))) = Some (100 * (1 + pct / 100))"
      by blast
    have "(93 * (1 + 1 / 100) :: real) = 100 * (1 + pct / 100)"
      using h [of 93] trail_leg_step [of 93] by simp
    moreover have "(95 * (1 + 1 / 100) :: real) = 100 * (1 + pct / 100)"
      using h [of 95] trail_leg_step [of 95] by simp
    ultimately show False by simp
  qed
  have 5: "pm_trail_stop [''sl_trail_pct'' \<mapsto> PyNum 5] new_position 110 10 =
       Inr (new_position\<lparr>lp_current_sl := 110 * (1 - 5 / 100)\<rparr>)"
    by (simp add: pm_trail_stop_def new_position_def)
  show ?thesis using 1 3 4 5 by simp
qed

theorem risk_prices_anchors_witness:
  "current_sl entered_leg = Some (100 * (1 - 7 / 100))
   \<and> calculate_pnl entered_leg (PyNum 104) = Inr (300, 4)
   \<and> lp_calculate_pnl new_position 104 True = Inr (300, 4)
   \<and> lp_calculate_pnl new_position 104 False = Inr (- 300, - 4)
   \<and> current_sl (fst (snd (lock_stage1 sim_broker lock_leg 4 2 (Some 4)))) = Some (100 * (1 + 2 / 100))
   \<and> current_sl (fst (snd (lock_stage3 sim_broker
        (lock_leg\<lparr>first_lock_achieved := True, profit_exit_target := Some 2,
           last_trail_level := 4\<rparr>) 6 2 1))) = Some (100 * (1 + 3 / 100))
   \<and> current_sl (fst (snd (trail_stop_loss sim_broker trail_leg 2))) = Some (93 * (1 + 1 * 1 / 100))
   \<and> pm_trail_stop [''sl_trail_pct'' \<mapsto> PyNum 5] new_position 110 10 =
       Inr (new_position\<lparr>lp_current_sl := 110 * (1 - 5 / 100)\<rparr>)"
proof -
  let ?locked = "lock_leg\<lparr>first_lock_achieved := True, profit_exit_target := Some 2,
           last_trail_level := 4\<rparr>"
  have en: "enter_leg_position live_broker (new_leg\<lparr>symbol := Some ''NIFTY02DEC2524500CE''\<rparr>) =
     (True, entered_leg,
      [PlaceOrder (Some ''NIFTY02DEC2524500CE'') 75 EntryAction,
       PlaceSL (Some ''NIFTY02DEC2524500CE'') 75 93, LogEvent ''SL_ORDER_PLACED''])"
    by (rule enter_live)
  have s1: "lock_stage1 sim_broker lock_leg 4 2 (Some 4) =
      (Continue, lock_leg\<lparr>first_lock_achieved := True, profit_exit_target := Some 2,
          last_trail_level := 4, current_sl := Some 102\<rparr>, [ModifySL ''SL1'' 102])"
    by (simp add: lock_stage1_def lock_leg_def entered_leg_def new_leg_def sim_broker_def)
  have s3: "lock_stage3 sim_broker ?locked 6 2 1 =
      (Continue, ?locked\<lparr>profit_exit_target := Some 3, last_trail_level := 6,
          current_sl := Some 103\<rparr>, [ModifySL ''SL1'' 103])"
    by (simp add: lock_stage3_def lock_leg_def entered_leg_def new_leg_def sim_broker_def
        py_div_def py_int_def)
  have tr: "trail_stop_loss sim_broker trail_leg 2 =
      (Continue, trail_leg\<lparr>current_sl := Some (9393 / 100), last_sl_trail_level := 2\<rparr>,
       [ModifySL ''SL1'' (9393 / 100)])"
    using trail_leg_step [of 93] by (simp add: trail_leg_def entered_leg_def new_leg_def)
  have pm: "pm_trail_stop [''sl_trail_pct'' \<mapsto> PyNum 5] new_position 110 10 =
       Inr (new_position\<lparr>lp_current_sl := 110 * (1 - 5 / 100)\<rparr>)"
    by (simp add: pm_trail_stop_def new_position_def)
  note t = risk_prices_anchors [where b = sim_broker and s = lock_leg and p = 4 and fl = 2
      and lt = "Some 4" and ?E0.0 = 100 and cp = "PyNum 104" and x = 104 and lp = new_position
      and y = 104 and cfg = "[''sl_trail_pct'' \<mapsto> PyNum 5]" and price = 110 and pct = 10]
  note u = risk_prices_anchors [where b = live_broker
      and s = "new_leg\<lparr>symbol := Some ''NIFTY02DEC2524500CE''\<rparr>"]
  note v = risk_prices_anchors [where b = sim_broker and s = ?locked and p = 6 and tt = 2 and tm = 1]
  note w = risk_prices_anchors [where b = sim_broker and s = trail_leg and p = 2]
  have c1: "current_sl entered_leg = Some (100 * (1 - 7 / 100))"
    using u en by (auto simp: new_leg_def entered_leg_def)
  have c2: "calculate_pnl entered_leg (PyNum 104) = Inr (300, 4)"
    using risk_prices_anchors [where s = entered_leg and ?E0.0 = 100 and cp = "PyNum 104" and x = 104]
    by (simp add: entered_leg_def new_leg_def)
  have c3: "lp_calculate_pnl new_position 104 True = Inr (300, 4)"
    using t by (simp add: new_position_def)
  have c3': "lp_calculate_pnl new_position 104 False = Inr (- 300, - 4)"
    using t by (simp add: new_position_def)
  have c4: "current_sl (fst (snd (lock_stage1 sim_broker lock_leg 4 2 (Some 4)))) = Some (100 * (1 + 2 / 100))"
    using t s1 by simp
  have c5: "current_sl (fst (snd (lock_stage3 sim_broker ?locked 6 2 1))) = Some (100 * (1 + 3 / 100))"
    using v s3 by simp
  have c6: "current_sl (fst (snd (trail_stop_loss sim_broker trail_leg 2))) = Some (93 * (1 + 1 * 1 / 100))"
    using w tr by simp
  show ?thesis by (intro conjI c1 c2 c3 c3' c4 c5 c6 pm)
qed

section \<open>Wait and trade: the reset\<close>

text \<open>
  While the observed prices rise from the reference price and stay under the target, the
  loop only moves the peak; a non-zero price under the target that is at least the reset
  percentage under the peak resets reference, target and peak to itself.
\<close>

lemma rising_path:
  assumes "reference_price st \<noteq> 0" "0 < highest_since_reference st" "0 < d"
    "sorted (highest_since_reference st # xs)" "\<forall>x \<in> set xs. x < target_price st"
  shows "wait_loop th en (Some d) st (observed xs @ later) =
     wait_loop th en (Some d) (st\<lparr>highest_since_reference := last (highest_since_reference st # xs)\<rparr>) later"
  using assms
proof (induction xs arbitrary: st)
  case Nil
  then show ?case by (simp add: observed_def)
next
  case (Cons x xs)
  let ?st1 = "st\<lparr>highest_since_reference := x\<rparr>"
  have x: "highest_since_reference st \<le> x" "x < target_price st" "0 < x"
    using Cons.prems by auto
  have step: "wait_step th en (Some d) st x = Inr (False, ?st1)"
    using x Cons.prems(1,3)
    by (auto simp: wait_step_def py_div_def Let_def)
  have "wait_loop th en (Some d) st (observed (x # xs) @ later) =
      wait_loop th en (Some d) ?st1 (observed xs @ later)"
    using step x(3) by (simp add: observed_def)
  also have "\<dots> = wait_loop th en (Some d)
      (?st1\<lparr>highest_since_reference := last (highest_since_reference ?st1 # xs)\<rparr>) later"
    using Cons.prems x by (intro Cons.IH) auto
  finally show ?case by simp
qed


lemma reset_step:
  assumes "reference_price st \<noteq> 0" "0 < highest_since_reference st" "0 < d" "c \<noteq> 0"
    "c < target_price st" "c \<le> highest_since_reference st * (1 - d / 100)"
  shows "wait_step th True (Some d) st c =
     Inr (False, st\<lparr>reset_count := reset_count st + 1, reference_price := c,
                     target_price := c * (1 + th / 100), highest_since_reference := c\<rparr>)"
proof -
  let ?P = "highest_since_reference st"
  have lt: "c < ?P"
  proof -
    have "?P * (1 - d / 100) < ?P * 1"
      using assms(2,3) by (intro mult_strict_left_mono) simp_all
    then show ?thesis using assms(6) by simp
  qed
  have "d * ?P \<le> (?P - c) * 100"
    using assms(6) by (simp add: algebra_simps)
  then have drop: "d \<le> (?P - c) / ?P * 100"
    using assms(2) by (simp add: field_simps)
  show ?thesis
    using assms(1,2,3,5) lt drop
    by (simp add: wait_step_def py_div_def Let_def)
qed

lemma threshold_first:
  assumes "reference_price st \<noteq> 0" "target_price st \<le> p" "p \<noteq> 0"
  shows "wait_loop th en dr st (observed (p # later)) = Confirmed (reset_count st)"
  using assms by (simp add: observed_def wait_step_def py_div_def Let_def)

text \<open>
  Claim C4, as amended. Wait-and-trade reset: for a reference price \<open>R > 0\<close>, a threshold
  \<open>T \<ge> 0\<close> and a reset drop \<open>D > 0\<close>, when the observed prices rise from \<open>R\<close> to a peak
  \<open>P\<close> without reaching the target \<open>R * (1 + T / 100)\<close> and the next price \<open>c\<close> is at
  least \<open>D\<close> percent under \<open>P\<close>, the loop goes on with reference \<open>c\<close>, target
  \<open>c * (1 + T / 100)\<close>, the peak restarted at \<open>c\<close> and one reset counted, and the threshold
  is not reached at \<open>c\<close>; a next non-zero price \<open>y\<close> confirms exactly when it reaches the
  new target. A price \<open>p\<close> at or above the target that is observed after the rise
  confirms at once, with no reset counted, whatever follows it: the threshold test precedes
  the reset test on every price.
\<close>

theorem wait_trade_reset:
  assumes "0 < R" "0 \<le> T" "0 < D" "sorted (R # xs)" "\<forall>x \<in> set xs. x < R * (1 + T / 100)"
    "c \<noteq> 0" "c \<le> last (R # xs) * (1 - D / 100)"
  shows "wait_for_trade_confirmation T True (Some D) (Some (PyNum R)) (observed (xs @ [c])) =
      Waiting \<lparr>reference_price = c, target_price = c * (1 + T / 100),
               highest_since_reference = c, reset_count = 1\<rparr>
    \<and> (y \<noteq> 0 \<longrightarrow>
        (wait_for_trade_confirmation T True (Some D) (Some (PyNum R)) (observed (xs @ [c, y]))
           = Confirmed 1
         \<longleftrightarrow> c * (1 + T / 100) \<le> y))
    \<and> (R * (1 + T / 100) \<le> p \<longrightarrow>
        wait_for_trade_confirmation T True (Some D) (Some (PyNum R)) (observed (xs @ p # later))
          = Confirmed 0)"
proof -
  define P where "P = last (R # xs)"
  define st0 where "st0 = \<lparr>reference_price = R, target_price = R * (1 + T / 100),
               highest_since_reference = R, reset_count = 0\<rparr>"
  define stP where "stP = st0\<lparr>highest_since_reference := P\<rparr>"
  define st1 where "st1 = \<lparr>reference_price = c, target_price = c * (1 + T / 100),
               highest_since_reference = c, reset_count = 1\<rparr>"
  have rise: "\<And>later. wait_loop T True (Some D) st0 (observed xs @ later) =
      wait_loop T True (Some D) stP later"
    using rising_path [of st0 D xs T True] assms(1,3,4,5)
    by (simp add: st0_def stP_def P_def)
  have P: "R \<le> P" "0 < P"
  proof -
    show "R \<le> P" using assms(4) by (cases xs) (auto simp: P_def)
    then show "0 < P" using assms(1) by simp
  qed
  have Pt: "P \<le> R * (1 + T / 100)"
  proof (cases xs)
    case Nil
    have "R * 1 \<le> R * (1 + T / 100)"
      using assms(1,2) by (intro mult_left_mono) simp_all
    then show ?thesis using Nil by (simp add: P_def)
  next
    case (Cons a as)
    then have "P \<in> set xs" by (simp add: P_def)
    then show ?thesis using assms(5) by fastforce
  qed
  have cP: "c \<le> P * (1 - D / 100)" using assms(7) by (simp only: P_def)
  have "P * (1 - D / 100) < P * 1"
    using P(2) assms(3) by (intro mult_strict_left_mono) simp_all
  then have ct: "c < R * (1 + T / 100)" using cP Pt by simp
  have step: "wait_step T True (Some D) stP c = Inr (False, st1)"
    using reset_step [of stP D c T] assms(1,3,6) cP P ct
    by (simp add: stP_def st0_def st1_def)
  have obs: "\<And>zs. observed (xs @ zs) = observed xs @ observed zs"
    by (simp add: observed_def)
  have one: "\<And>later. wait_loop T True (Some D) stP (observed [c] @ later) =
      wait_loop T True (Some D) st1 later"
    using step assms(6) by (simp add: observed_def)
  have a: "wait_loop T True (Some D) st0 (observed (xs @ [c])) = Waiting st1"
    using one [of "[]"] by (simp add: obs rise)
  have l: "wait_loop T True (Some D) st0 (observed (xs @ [c, y])) =
        wait_loop T True (Some D) st1 (observed [y])"
    using one [of "observed [y]"] rise [of "observed [c] @ observed [y]"]
    by (simp add: obs observed_def)
  have b: "y \<noteq> 0 \<Longrightarrow>
      (wait_loop T True (Some D) st0 (observed (xs @ [c, y])) = Confirmed 1
         \<longleftrightarrow> c * (1 + T / 100) \<le> y)"
    using assms(6) unfolding l
    by (auto simp: st1_def observed_def wait_step_def py_div_def Let_def split: if_splits)
  have first: "R * (1 + T / 100) \<le> p \<Longrightarrow>
      wait_loop T True (Some D) st0 (observed (xs @ p # later)) = Confirmed 0"
  proof -
    assume t: "R * (1 + T / 100) \<le> p"
    have "R * 1 \<le> R * (1 + T / 100)"
      using assms(1,2) by (intro mult_left_mono) simp_all
    then have "0 < p" using t assms(1) by linarith
    then have p: "p \<noteq> 0" by simp
    have "wait_loop T True (Some D) stP (observed (p # later)) = Confirmed (reset_count stP)"
      using assms(1) t p by (intro threshold_first) (simp_all add: stP_def st0_def)
    moreover have "reset_count stP = 0" by (simp add: stP_def st0_def)
    ultimately show ?thesis by (simp only: obs rise)
  qed
  show ?thesis
    using a b first by (simp add: wait_for_trade_confirmation_def st0_def st1_def)
qed

theorem wait_trade_reset_witness:
  "wait_for_trade_confirmation 3 True (Some 2) (Some (PyNum 100)) (observed ([101, 102] @ [999 / 10])) =
      Waiting \<lparr>reference_price = 999 / 10, target_price = 999 / 10 * (1 + 3 / 100),
               highest_since_reference = 999 / 10, reset_count = 1\<rparr>
   \<and> wait_for_trade_confirmation 3 True (Some 2) (Some (PyNum 100))
        (observed ([101, 102] @ [999 / 10, 1029 / 10])) = Confirmed 1
   \<and> wait_for_trade_confirmation 3 True (Some 2) (Some (PyNum 100))
        (observed ([101, 102] @ 104 # [101])) = Confirmed 0"
proof -
  have h: "(0::real) < 100" "(0::real) \<le> 3" "(0::real) < 2" "sorted ((100::real) # [101, 102])"
    "\<forall>x \<in> set [101, 102 :: real]. x < 100 * (1 + 3 / 100)" "(999 / 10 :: real) \<noteq> 0"
    "(999 / 10 :: real) \<le> last (100 # [101, 102]) * (1 - 2 / 100)"
    by simp_all
  show ?thesis
    using wait_trade_reset [OF h, where y = "1029 / 10" and p = 104 and later = "[101]"]
    by simp
qed

text \<open>
  The claim as stated fails when the original target is reached before the drop: the
  threshold test runs first, on every price, and returns. From 100 with a threshold of 3
  percent and a reset drop of 2 percent, the path 104, 101 is confirmed at 104, with no
  reset.
\<close>

theorem wait_trade_reset_counterexample:
  "wait_for_trade_confirmation 3 True (Some 2) (Some (PyNum 100)) (observed [104, 101]) = Confirmed 0
   \<and> (100 * (1 + 3 / 100) :: real) \<le> 104 \<and> (101 :: real) \<le> 104 * (1 - 2 / 100)"
  by (simp add: wait_for_trade_confirmation_def observed_def wait_step_def py_div_def)

section \<open>The entry-time gate\<close>

text \<open>
  Claim C9. After the wait for the entry time the leg is to abort when the exit time (or the
  strategy end time) has passed, and likewise when the market is closed (outside 09:15 to
  15:30, or on a weekend). The second half does not hold of the code: \<^verbatim>\<open>is_market_open\<close>
  returns \<^verbatim>\<open>True\<close> before it looks at the clock. On Saturday 6 December 2025 at 10:00,
  with the leg's exit time at 15:00 or with none and the strategy ending at 15:00, the
  market-hours test that the function's remaining statements spell out is false, and the
  leg goes on to the breakout check.
\<close>

theorem market_closed_gate:
  "weekday saturday_10 = 5
   \<and> \<not> market_hours saturday_10
   \<and> \<not> dt_le saturday_15 saturday_10
   \<and> is_market_open saturday_10
   \<and> entry_gate 15 0 (new_leg\<lparr>exit_time := Some saturday_15\<rparr>) saturday_10 saturday_10
       = CheckBreakout
   \<and> exit_time new_leg = None
   \<and> entry_gate 15 0 new_leg saturday_10 saturday_10 = CheckBreakout"
  by (simp add: entry_gate_def is_market_open_def market_hours_def weekday_def dt_le_def
      dt_key_def replace_time_def saturday_10_def saturday_15_def new_leg_def)

section \<open>The position guard before an exit order\<close>

text \<open>
  The symbol the guard compares is one of the three symbol entries of a position, so a
  book none of whose positions lists the symbol with a quantity other than zero is searched
  to its end without a match.
\<close>

lemma or_symbol_cases: "or_symbol a b = a \<or> or_symbol a b = b"
  by (cases a) auto

lemma pos_symbol_listed: "pos_symbol p = Some ticker \<Longrightarrow> lists_symbol p ticker"
  using or_symbol_cases [of "p_symbol p" "p_tradingsymbol p"]
    or_symbol_cases [of "or_symbol (p_symbol p) (p_tradingsymbol p)" "p_Symbol p"]
  by (auto simp: pos_symbol_def lists_symbol_def)

lemma find_position_absent:
  "\<forall>item \<in> set positions. absent_or_flat ticker item \<Longrightarrow> find_position positions ticker = Inr False"
proof (induction positions)
  case Nil
  then show ?case by simp
next
  case (Cons item rest)
  then obtain p where p: "item = Position p" "\<not> lists_symbol p ticker \<or> pos_quantity p = 0"
    by (cases item) auto
  then have "\<not> (pos_symbol p = Some ticker \<and> pos_quantity p \<noteq> 0)"
    using pos_symbol_listed by blast
  then show ?case using Cons p(1) by simp
qed

lemma guard_denies:
  assumes "\<not> test_mode om" "auto_place_orders om"
    "\<forall>item \<in> set positions. absent_or_flat ticker item"
  shows "\<not> verify_position_exists om (Book (Some ''success'') positions) ticker"
  using assms(1,2) find_position_absent [OF assms(3)]
  by (simp add: verify_position_exists_def)

lemma guard_skips:
  assumes "\<not> test_mode om" "auto_place_orders om" "act = om_exit_action om"
    "\<forall>item \<in> set positions. absent_or_flat ticker item"
  shows "place_order om (Book (Some ''success'') positions) answer stamp ticker q act =
      (None, [PositionBookCall])"
  using guard_denies [OF assms(1,2,4)] assms(1,2,3) by (simp add: place_order_def)

lemma guard_open:
  assumes "\<not> test_mode om" "auto_place_orders om"
    "book = BookRaises \<or> book = BookNotDict \<or> (\<exists>st d. book = Book st d \<and> st \<noteq> Some ''success'')"
  shows "verify_position_exists om book ticker"
  using assms by (auto simp: verify_position_exists_def)

lemma guard_fails_open:
  assumes "\<not> test_mode om" "auto_place_orders om" "act = om_exit_action om"
    "book = BookRaises \<or> book = BookNotDict \<or> (\<exists>st d. book = Book st d \<and> st \<noteq> Some ''success'')"
  shows "place_order om book answer stamp ticker q act =
      (case answer of
         OrderRaises \<Rightarrow> None
       | OrderResponse status orderid \<Rightarrow> if status = Some ''success'' then orderid else None,
       [PositionBookCall, PlaceOrderCall ticker q act])"
  using guard_open [OF assms(1,2,4)] assms(1,2,3) by (simp add: place_order_def)

lemma book_read_first:
  assumes "act = om_exit_action om"
    "PlaceOrderCall ticker q act \<in> set (snd (place_order om book answer stamp ticker q act))"
  shows "snd (place_order om book answer stamp ticker q act) =
      [PositionBookCall, PlaceOrderCall ticker q act]"
  using assms by (auto simp: place_order_def Let_def split: if_splits)

text \<open>
  Claim C6. Exit-order position guard with fail-open, for an order manager that places
  orders (not in test mode, \<^verbatim>\<open>auto_place_orders\<close> set). When the position book is read with
  success and every position in it either does not list the symbol or has quantity zero,
  the check is false and \<^verbatim>\<open>place_order\<close> for the exit action returns no order id, having
  called the book and nothing else. When the query fails (a raise, an answer that is not a
  dict, a status other than success) the check is true and the order is placed: the broker
  is called after the book, and its answer decides the order id. And whenever an order for
  the exit action reaches the broker, the book was read just before.
\<close>

theorem exit_order_position_guard:
  "(\<not> test_mode om \<and> auto_place_orders om \<and> act = om_exit_action om
      \<and> (\<forall>item \<in> set positions. absent_or_flat ticker item) \<longrightarrow>
        \<not> verify_position_exists om (Book (Some ''success'') positions) ticker
        \<and> place_order om (Book (Some ''success'') positions) answer stamp ticker q act =
            (None, [PositionBookCall]))
   \<and> (\<not> test_mode om \<and> auto_place_orders om \<and> act = om_exit_action om
      \<and> (book = BookRaises \<or> book = BookNotDict
          \<or> (\<exists>st d. book = Book st d \<and> st \<noteq> Some ''success'')) \<longrightarrow>
        verify_position_exists om book ticker
        \<and> place_order om book answer stamp ticker q act =
            (case answer of
               OrderRaises \<Rightarrow> None
             | OrderResponse status orderid \<Rightarrow> if status = Some ''success'' then orderid else None,
             [PositionBookCall, PlaceOrderCall ticker q act]))
   \<and> (act = om_exit_action om
      \<and> PlaceOrderCall ticker q act \<in> set (snd (place_order om book answer stamp ticker q act)) \<longrightarrow>
        snd (place_order om book answer stamp ticker q act) =
          [PositionBookCall, PlaceOrderCall ticker q act])"
  using guard_denies [where om = om and positions = positions and ticker = ticker]
    guard_skips [where om = om and act = act and positions = positions and ticker = ticker
      and answer = answer and stamp = stamp and q = q]
    guard_open [where om = om and book = book and ticker = ticker]
    guard_fails_open [where om = om and act = act and book = book and ticker = ticker
      and answer = answer and stamp = stamp and q = q]
    book_read_first [where om = om and act = act and book = book and ticker = ticker
      and answer = answer and stamp = stamp and q = q]
  by blast

theorem exit_order_position_guard_witness:
  "place_order live_orders
      (Book (Some ''success'') [book_position ''BANKNIFTY'' 30, book_position ''NIFTY'' 0])
      (OrderResponse (Some ''success'') (Some ''ORD9'')) ''1764990000'' ''NIFTY'' 75 ''SELL''
     = (None, [PositionBookCall])
   \<and> place_order live_orders BookRaises
      (OrderResponse (Some ''success'') (Some ''ORD9'')) ''1764990000'' ''NIFTY'' 75 ''SELL''
     = (Some ''ORD9'', [PositionBookCall, PlaceOrderCall ''NIFTY'' 75 ''SELL''])
   \<and> place_order live_orders (Book (Some ''error'') [])
      (OrderResponse (Some ''success'') (Some ''ORD9'')) ''1764990000'' ''NIFTY'' 75 ''SELL''
     = (Some ''ORD9'', [PositionBookCall, PlaceOrderCall ''NIFTY'' 75 ''SELL''])
   \<and> place_order live_orders
      (Book (Some ''success'') [book_position ''NIFTY'' 75])
      (OrderResponse (Some ''success'') (Some ''ORD9'')) ''1764990000'' ''NIFTY'' 75 ''SELL''
     = (Some ''ORD9'', [PositionBookCall, PlaceOrderCall ''NIFTY'' 75 ''SELL''])"
proof -
  let ?ok = "OrderResponse (Some ''success'') (Some ''ORD9'')"
  let ?flat = "[book_position ''BANKNIFTY'' 30, book_position ''NIFTY'' 0]"
  have live: "\<not> test_mode live_orders" "auto_place_orders live_orders"
    "''SELL'' = om_exit_action live_orders"
    by (simp_all add: live_orders_def)
  have flat: "\<forall>item \<in> set ?flat. absent_or_flat ''NIFTY'' item"
    by (simp add: book_position_def lists_symbol_def pos_quantity_def or_qty_def)
  have a: "place_order live_orders (Book (Some ''success'') ?flat)
      ?ok ''1764990000'' ''NIFTY'' 75 ''SELL'' = (None, [PositionBookCall])"
    using exit_order_position_guard [where om = live_orders and act = "''SELL''"
        and positions = ?flat and ticker = "''NIFTY''" and answer = ?ok
        and stamp = "''1764990000''" and q = 75 and book = BookRaises] live flat
    by blast
  have b: "place_order live_orders BookRaises ?ok ''1764990000'' ''NIFTY'' 75 ''SELL''
     = (case ?ok of
         OrderRaises \<Rightarrow> None
       | OrderResponse status orderid \<Rightarrow> if status = Some ''success'' then orderid else None,
       [PositionBookCall, PlaceOrderCall ''NIFTY'' 75 ''SELL''])"
    using exit_order_position_guard [where om = live_orders and act = "''SELL''"
        and positions = ?flat and ticker = "''NIFTY''" and answer = ?ok
        and stamp = "''1764990000''" and q = 75 and book = BookRaises] live
    by blast
  have c: "place_order live_orders (Book (Some ''error'') []) ?ok ''1764990000'' ''NIFTY'' 75 ''SELL''
     = (case ?ok of
         OrderRaises \<Rightarrow> None
       | OrderResponse status orderid \<Rightarrow> if status = Some ''success'' then orderid else None,
       [PositionBookCall, PlaceOrderCall ''NIFTY'' 75 ''SELL''])"
  proof -
    have "\<exists>st d. Book (Some ''error'') [] = Book st d \<and> st \<noteq> Some ''success''"
      by simp
    then show ?thesis
      using exit_order_position_guard [where om = live_orders and act = "''SELL''"
        and positions = ?flat and ticker = "''NIFTY''" and answer = ?ok
        and stamp = "''1764990000''" and q = 75 and book = "Book (Some ''error'') []"] live
      by blast
  qed
  have d: "place_order live_orders (Book (Some ''success'') [book_position ''NIFTY'' 75])
      ?ok ''1764990000'' ''NIFTY'' 75 ''SELL''
     = (Some ''ORD9'', [PositionBookCall, PlaceOrderCall ''NIFTY'' 75 ''SELL''])"
    by (simp add: place_order_def verify_position_exists_def live_orders_def book_position_def
        pos_symbol_def pos_quantity_def or_qty_def)
  from b have b': "place_order live_orders BookRaises ?ok ''1764990000'' ''NIFTY'' 75 ''SELL''
     = (Some ''ORD9'', [PositionBookCall, PlaceOrderCall ''NIFTY'' 75 ''SELL''])"
    by simp
  from c have c': "place_order live_orders (Book (Some ''error'') []) ?ok ''1764990000'' ''NIFTY'' 75 ''SELL''
     = (Some ''ORD9'', [PositionBookCall, PlaceOrderCall ''NIFTY'' 75 ''SELL''])"
    by simp
  show ?thesis by (intro conjI a b' c' d)
qed

section \<open>A stop order that is already done\<close>

lemma cancel_done:
  assumes "\<not> test_mode om" "auto_place_orders om" "place_sl_order_enabled om" "some_id order_id"
    "already_done msg"
  shows "cancel_sl_order om order_id (ApiResponse status (Message msg)) = (True, Some LogInfo)"
  using assms by (simp add: cancel_sl_order_def failed_response_def)

lemma modify_done:
  assumes "\<not> test_mode om" "auto_place_orders om" "place_sl_order_enabled om" "some_id order_id"
    "already_done msg" "round_to_tick_size p \<noteq> 0"
  shows "modify_sl_order om order_id p (ApiResponse status (Message msg)) =
     (status = Some ''success'', Some LogInfo)"
  using assms by (simp add: modify_sl_order_def failed_response_def py_div_def Let_def)

text \<open>
  Claim C7, as amended. For an order manager that places stop orders and a broker answer
  whose message contains \<^verbatim>\<open>not a pending order\<close> or \<^verbatim>\<open>already executed\<close> (in any case),
  for every such message: \<^verbatim>\<open>cancel_sl_order\<close> returns \<^verbatim>\<open>True\<close> and logs at info level;
  \<^verbatim>\<open>modify_sl_order\<close> (for a trigger that does not round to zero) logs at info level and
  returns \<^verbatim>\<open>True\<close> only when the status is success, else \<^verbatim>\<open>False\<close>.
\<close>

theorem done_order_outcomes:
  "\<not> test_mode om \<and> auto_place_orders om \<and> place_sl_order_enabled om \<and> some_id order_id
     \<and> already_done msg \<longrightarrow>
       cancel_sl_order om order_id (ApiResponse status (Message msg)) = (True, Some LogInfo)
       \<and> (round_to_tick_size p \<noteq> 0 \<longrightarrow>
            modify_sl_order om order_id p (ApiResponse status (Message msg)) =
              (status = Some ''success'', Some LogInfo))"
  using cancel_done [of om order_id msg status] modify_done [of om order_id msg p status]
  by blast

lemma tick_93: "round_to_tick_size 93 = 93"
  by (simp add: round_to_tick_size_def py_round_def)

lemma done_texts:
  "already_done ''Order is not a pending order''"
  "already_done ''Order ALREADY EXECUTED at exchange''"
  "\<not> already_done ''Invalid trigger price''"
  by code_simp+

theorem done_order_outcomes_witness:
  "cancel_sl_order live_orders (Some ''SL1'')
      (ApiResponse (Some ''error'') (Message ''Order ALREADY EXECUTED at exchange'')) = (True, Some LogInfo)
   \<and> modify_sl_order live_orders (Some ''SL1'') 93
      (ApiResponse (Some ''error'') (Message ''Order ALREADY EXECUTED at exchange'')) = (False, Some LogInfo)"
proof -
  have h: "\<not> test_mode live_orders \<and> auto_place_orders live_orders
      \<and> place_sl_order_enabled live_orders \<and> some_id (Some ''SL1'')
      \<and> already_done ''Order ALREADY EXECUTED at exchange''"
    using done_texts by (simp add: live_orders_def)
  show ?thesis
    using done_order_outcomes [of live_orders "Some ''SL1''" "''Order ALREADY EXECUTED at exchange''"
        "Some ''error''" 93] h tick_93
    by simp
qed

text \<open>
  The claim as stated fails for modify: on a failed status with the message
  \<^verbatim>\<open>Order is not a pending order\<close> it returns \<^verbatim>\<open>False\<close>, the value it returns for any
  other failure, where cancel returns \<^verbatim>\<open>True\<close>.
\<close>

theorem done_order_outcomes_counterexample:
  "already_done ''Order is not a pending order''
   \<and> modify_sl_order live_orders (Some ''SL1'') 93
       (ApiResponse (Some ''error'') (Message ''Order is not a pending order'')) = (False, Some LogInfo)
   \<and> fst (modify_sl_order live_orders (Some ''SL1'') 93
       (ApiResponse (Some ''error'') (Message ''Order is not a pending order'')))
     = fst (modify_sl_order live_orders (Some ''SL1'') 93
       (ApiResponse (Some ''error'') (Message ''Invalid trigger price'')))
   \<and> cancel_sl_order live_orders (Some ''SL1'')
       (ApiResponse (Some ''error'') (Message ''Order is not a pending order'')) = (True, Some LogInfo)"
  using done_texts tick_93
  by (simp add: modify_sl_order_def cancel_sl_order_def failed_response_def py_div_def
      live_orders_def)

section \<open>The quote fetch under errors\<close>

lemma three_attempts: "[0..<3] = [0, 1, 2]"
  by (simp add: upt_rec)

lemma transient_quote_attempt:
  "transient_error q \<Longrightarrow> quote_attempt 3 attempt q = back_off 3 attempt"
  by (cases q rule: transient_error.cases) (simp_all add: quote_attempt_def)

lemma transient_underlying_attempt:
  "transient_error q \<Longrightarrow> underlying_attempt 3 attempt q = Inr (back_off 3 attempt)"
  by (cases q rule: transient_error.cases) (simp_all add: underlying_attempt_def)

lemma plain_quote_attempt:
  "plain_error q \<Longrightarrow> quote_attempt 3 attempt q = Returned None"
  by (cases q rule: plain_error.cases) (simp_all add: quote_attempt_def)

lemma plain_underlying_attempt:
  "plain_error q \<Longrightarrow> underlying_attempt 3 attempt q = Inr (Returned None)"
  by (cases q rule: plain_error.cases) (simp_all add: underlying_attempt_def)

lemma back_off_3:
  "back_off 3 0 = Again (1 / 2)" "back_off 3 (Suc 0) = Again 1" "back_off 3 2 = Returned None"
  by (simp_all add: back_off_def)

text \<open>
  Claim C8, as amended. Quote fetch degrades instead of raising, in \<^verbatim>\<open>get_quote\<close> and
  in \<^verbatim>\<open>get_underlying_price\<close> (with its default of three retries), when the WebSocket
  gives no price. If each of the three attempts is answered by an error whose message is a
  string that the code classifies as transient (it contains \<^verbatim>\<open>WinError 10035\<close> or
  \<^verbatim>\<open>HTTP 500\<close>, or \<^verbatim>\<open>timeout\<close> in any case; an absent message is read as
  \<^verbatim>\<open>Unknown error\<close>), the API is called exactly three times, with sleeps of 0.5 and 1.0
  seconds after the first and second attempt and none after the third, and the result is
  \<^verbatim>\<open>None\<close>. If the first answer is an error whose message is a string (or absent) and not
  transient, the result is \<^verbatim>\<open>None\<close> after that one call, with no sleep. The claim as
  written counts every 5xx message as transient and every other error as returning at once;
  the counterexample below shows where the code differs.
\<close>

theorem quote_fetch_degrades:
  "(transient_error (client 0) \<and> transient_error (client 1) \<and> transient_error (client 2) \<longrightarrow>
      get_quote None client =
        (None, [QuoteCall 0, Sleep (1 / 2), QuoteCall 1, Sleep 1, QuoteCall 2])
      \<and> get_underlying_price None 3 client =
        (None, [QuoteCall 0, Sleep (1 / 2), QuoteCall 1, Sleep 1, QuoteCall 2]))
   \<and> (plain_error (client 0) \<longrightarrow>
      get_quote None client = (None, [QuoteCall 0])
      \<and> get_underlying_price None 3 client = (None, [QuoteCall 0]))"
proof (intro conjI impI)
  assume t: "transient_error (client 0) \<and> transient_error (client 1) \<and> transient_error (client 2)"
  show "get_quote None client =
        (None, [QuoteCall 0, Sleep (1 / 2), QuoteCall 1, Sleep 1, QuoteCall 2])"
    using t by (simp add: get_quote_def three_attempts transient_quote_attempt back_off_3)
  show "get_underlying_price None 3 client =
        (None, [QuoteCall 0, Sleep (1 / 2), QuoteCall 1, Sleep 1, QuoteCall 2])"
    using t
    by (simp add: get_underlying_price_def three_attempts transient_underlying_attempt back_off_3)
next
  assume p: "plain_error (client 0)"
  show "get_quote None client = (None, [QuoteCall 0])"
    using p by (simp add: get_quote_def three_attempts plain_quote_attempt)
  show "get_underlying_price None 3 client = (None, [QuoteCall 0])"
    using p by (simp add: get_underlying_price_def three_attempts plain_underlying_attempt)
qed

lemma answers:
  "transient_error timeout_answer" "plain_error invalid_answer"
  by (simp_all add: timeout_answer_def invalid_answer_def) code_simp+

theorem quote_fetch_degrades_witness:
  "get_quote None (\<lambda>attempt. timeout_answer) =
      (None, [QuoteCall 0, Sleep (1 / 2), QuoteCall 1, Sleep 1, QuoteCall 2])
   \<and> get_underlying_price None 3 (\<lambda>attempt. timeout_answer) =
      (None, [QuoteCall 0, Sleep (1 / 2), QuoteCall 1, Sleep 1, QuoteCall 2])
   \<and> get_quote None (\<lambda>attempt. invalid_answer) = (None, [QuoteCall 0])
   \<and> get_underlying_price None 3 (\<lambda>attempt. invalid_answer) = (None, [QuoteCall 0])"
  using quote_fetch_degrades [of "\<lambda>attempt. timeout_answer"]
    quote_fetch_degrades [of "\<lambda>attempt. invalid_answer"] answers
  by simp

text \<open>
  The message \<^verbatim>\<open>HTTP 503 Service Unavailable\<close> names a 5xx error, yet it contains none of
  the three texts: the fetch gives up after one call, with no retry. An error whose
  \<^verbatim>\<open>message\<close> is \<^verbatim>\<open>None\<close> is not transient, yet the substring test raises on it and
  the general handler retries: three calls with the back-off.
\<close>

lemma not_transient_503: "\<not> transient ''HTTP 503 Service Unavailable''"
  by code_simp

theorem quote_fetch_degrades_counterexample:
  "get_quote None (\<lambda>attempt. unavailable_answer) = (None, [QuoteCall 0])
   \<and> get_underlying_price None 3 (\<lambda>attempt. unavailable_answer) = (None, [QuoteCall 0])
   \<and> get_quote None (\<lambda>attempt. null_message_answer) =
       (None, [QuoteCall 0, Sleep (1 / 2), QuoteCall 1, Sleep 1, QuoteCall 2])
   \<and> get_underlying_price None 3 (\<lambda>attempt. null_message_answer) =
       (None, [QuoteCall 0, Sleep (1 / 2), QuoteCall 1, Sleep 1, QuoteCall 2])"
  using not_transient_503
  by (simp add: get_quote_def get_underlying_price_def three_attempts quote_attempt_def
      underlying_attempt_def back_off_def raise_or_back_off_def unavailable_answer_def
      null_message_answer_def)

end
